theory Spec2Isabelle
  imports Main
begin

section \<open>The PostgreSQL actor store\<close>

text \<open>
  A shallow embedding of the actor placement store (package \<open>postgresql\<close> of
  \<open>actorstore\<close>): its configuration (\<open>pgMetadata\<close>), its lifecycle (\<open>Init\<close>,
  \<open>Ping\<close>, \<open>Close\<close>), the host and actor operations and the transaction helper
  \<open>executeInTransaction\<close>.

  The database server is the environment of the code. It is a value of type \<open>world\<close>
  that every call takes and returns: the committed tables, the writes of the open
  transaction, the answers the server is going to give (a fault or none for each call,
  in order) and the log of the calls made so far.
\<close>

subsection \<open>Errors\<close>

text \<open>
  Errors are values. \<open>dberr\<close> is what the driver returns: the sentinel
  \<open>pgx.ErrNoRows\<close>, a \<open>*pgconn.PgError\<close> with its SQLSTATE code, or any other
  error (network, context deadline of the call, closed transaction).
\<close>

datatype dberr = ErrNoRows | PgError string | OtherDbError string

datatype ctxerr = Canceled | DeadlineExceeded

text \<open>
  \<open>New msg\<close> is \<open>errors.New(msg)\<close>, \<open>Wrap msg e\<close> is
  \<open>fmt.Errorf("msg: %w", e)\<close>, \<open>Db e\<close> is a driver error returned as it is and
  \<open>Ctx e\<close> is \<open>ctx.Err()\<close>. The first six are the sentinels of package
  \<open>actorstore\<close>. \<open>PanicNilPool\<close> is not a returned error: it stands for the
  nil-pointer panic of a call through \<open>p.db\<close> while \<open>p.db\<close> is nil.
\<close>

datatype error =
    ErrInvalidRequestMissingParameters
  | ErrActorHostConflict
  | ErrActorHostNotFound
  | ErrActorNotFound
  | ErrNoActorHost
  | ErrReminderNotFound
  | New string
  | Wrap string error
  | Db dberr
  | Ctx ctxerr
  | PanicNilPool

text \<open>\<open>pgerrcode.UniqueViolation\<close>, SQLSTATE 23505.\<close>

definition UniqueViolation :: string where
  "UniqueViolation = ''23505''"

text \<open>
  \<open>isUniqueViolationError\<close>: false for nil, true exactly for a \<open>PgError\<close> whose code
  is \<open>UniqueViolation\<close>.
\<close>

fun isUniqueViolationError :: "dberr option \<Rightarrow> bool" where
  "isUniqueViolationError None = False"
| "isUniqueViolationError (Some (PgError code)) = (code = UniqueViolation)"
| "isUniqueViolationError (Some _) = False"

subsection \<open>Configuration\<close>

text \<open>\<open>time.Duration\<close> counts nanoseconds; no arithmetic is done on it here.\<close>

definition Millisecond :: int where
  "Millisecond = 1000000"

definition Second :: int where
  "Second = 1000000000"

text \<open>\<open>type pgTable string\<close> and its constants.\<close>

type_synonym pgTable = string

definition pgTableHosts :: pgTable where
  "pgTableHosts = ''hosts''"

definition pgTableHostsActorTypes :: pgTable where
  "pgTableHostsActorTypes = ''hosts_actor_types''"

definition pgTableActors :: pgTable where
  "pgTableActors = ''actors''"

text \<open>
  \<open>pgMetadata\<close>. The squashed \<open>PostgresAuthMetadata\<close> (connection string and
  credentials) belongs to another package; its fields are not read by the store.
\<close>

record pgMetadata =
  TablePrefix :: string
  MetadataTableName :: string
  Timeout :: int

text \<open>
  The collaborators of the configuration code that live in other packages, taken as
  parameters: how the generic decoder reads a duration from a property value, the
  validation of the authentication properties, the construction of the pool
  configuration, and the construction of the pool from it
  (\<open>pgxpool.NewWithConfig\<close>, which builds the pool on the client and opens no
  connection: the server is first reached by \<open>Ping\<close>).
\<close>

record externals =
  decodeDuration :: "string \<Rightarrow> int option"
  authInitWithMetadata :: "(string \<rightharpoonup> string) \<Rightarrow> error option"
  getPgxPoolConfig :: "pgMetadata \<Rightarrow> error option"
  newWithConfig :: "pgMetadata \<Rightarrow> error option"

text \<open>
  Modelled from the spec: \<open>metadata.DecodeMetadata\<close> (package \<open>metadata\<close>,
  not among the sources). It reads the recognised keys \<open>tablePrefix\<close>,
  \<open>metadataTableName\<close> and \<open>timeout\<close> of the property map into the fields tagged
  with them; a field whose key is absent keeps the value it has.
\<close>

definition DecodeMetadata ::
  "externals \<Rightarrow> (string \<rightharpoonup> string) \<Rightarrow> pgMetadata \<Rightarrow> error option \<times> pgMetadata" where
  "DecodeMetadata x props m =
    (let m1 = (case props ''tablePrefix'' of None \<Rightarrow> m | Some v \<Rightarrow> m\<lparr>TablePrefix := v\<rparr>);
         m2 = (case props ''metadataTableName'' of None \<Rightarrow> m1
               | Some v \<Rightarrow> m1\<lparr>MetadataTableName := v\<rparr>)
     in case props ''timeout'' of
          None \<Rightarrow> (None, m2)
        | Some v \<Rightarrow>
            (case decodeDuration x v of
               None \<Rightarrow> (Some (New ''cannot decode timeout''), m2)
             | Some d \<Rightarrow> (None, m2\<lparr>Timeout := d\<rparr>)))"

text \<open>
  \<open>InitWithMetadata\<close>: reset to the defaults, decode, validate the authentication
  properties, then refuse a timeout below one second. The receiver is overwritten
  also when an error is returned, so the new metadata is returned beside the error.
\<close>

definition InitWithMetadata ::
  "externals \<Rightarrow> (string \<rightharpoonup> string) \<Rightarrow> pgMetadata \<Rightarrow> error option \<times> pgMetadata" where
  "InitWithMetadata x props m0 =
    (let m = m0\<lparr>TablePrefix := [], MetadataTableName := ''dapr_metadata'',
                 Timeout := 20 * Second\<rparr>
     in case DecodeMetadata x props m of
          (Some err, m1) \<Rightarrow> (Some err, m1)
        | (None, m1) \<Rightarrow>
            (case authInitWithMetadata x props of
               Some err \<Rightarrow> (Some err, m1)
             | None \<Rightarrow>
                 if Timeout m1 < 1 * Second
                 then (Some (New ''invalid value for timeout: must be greater than 0''), m1)
                 else (None, m1)))"

definition TableName :: "pgMetadata \<Rightarrow> pgTable \<Rightarrow> string" where
  "TableName m table = TablePrefix m @ table"

subsection \<open>The database\<close>

text \<open>The three tables, a row per record, in insertion order.\<close>

record host_row =
  host_id :: string
  host_address :: string
  host_app_id :: string
  host_actors_api_level :: int
  host_last_healthcheck :: int

record host_actor_type_row =
  t_host_id :: string
  t_actor_type :: string
  t_actor_idle_timeout :: int

record actor_row =
  a_actor_type :: string
  a_actor_id :: string
  a_host_id :: string
  a_actor_idle_timeout :: int

record database =
  hosts :: "host_row list"
  hosts_actor_types :: "host_actor_type_row list"
  actors :: "actor_row list"

text \<open>
  The statements the store sends, as the server executes them (the generated host ID
  and \<open>CURRENT_TIMESTAMP\<close> of the host insert already filled in):
  \<^item> \<open>InsertHost\<close>: \<open>INSERT INTO hosts (...) VALUES (...) RETURNING host_id\<close>;
  \<^item> \<open>UpdateHostHealthcheck h t\<close>:
    \<open>UPDATE hosts SET host_last_healthcheck = t WHERE host_id = h\<close>;
  \<^item> \<open>DeleteHostActorTypes h\<close>: \<open>DELETE FROM hosts_actor_types WHERE host_id = h\<close>;
  \<^item> \<open>CopyFromHostActorTypes rows\<close>: the \<open>CopyFrom\<close> into \<open>hosts_actor_types\<close>;
  \<^item> \<open>DeleteHost h\<close>: \<open>DELETE FROM hosts WHERE host_id = h\<close>, which the foreign
    keys extend to the rows of the other two tables that reference the host;
  \<^item> \<open>DeleteActor t i\<close>:
    \<open>DELETE FROM actors WHERE actor_type = t AND actor_id = i\<close>.
  The table prefix only renames the tables and is left out of the statements.
\<close>

datatype stmt =
    InsertHost host_row
  | UpdateHostHealthcheck string int
  | DeleteHostActorTypes string
  | CopyFromHostActorTypes "host_actor_type_row list"
  | DeleteHost string
  | DeleteActor string string

fun exec_stmt :: "stmt \<Rightarrow> database \<Rightarrow> database" where
  "exec_stmt (InsertHost r) d = d\<lparr>hosts := hosts d @ [r]\<rparr>"
| "exec_stmt (UpdateHostHealthcheck h t) d =
     d\<lparr>hosts := map (\<lambda>r. if host_id r = h then r\<lparr>host_last_healthcheck := t\<rparr> else r)
                     (hosts d)\<rparr>"
| "exec_stmt (DeleteHostActorTypes h) d =
     d\<lparr>hosts_actor_types := filter (\<lambda>r. t_host_id r \<noteq> h) (hosts_actor_types d)\<rparr>"
| "exec_stmt (CopyFromHostActorTypes rs) d =
     d\<lparr>hosts_actor_types := hosts_actor_types d @ rs\<rparr>"
| "exec_stmt (DeleteHost h) d =
     d\<lparr>hosts := filter (\<lambda>r. host_id r \<noteq> h) (hosts d),
       hosts_actor_types := filter (\<lambda>r. t_host_id r \<noteq> h) (hosts_actor_types d),
       actors := filter (\<lambda>r. a_host_id r \<noteq> h) (actors d)\<rparr>"
| "exec_stmt (DeleteActor t i) d =
     d\<lparr>actors := filter (\<lambda>r. \<not> (a_actor_type r = t \<and> a_actor_id r = i)) (actors d)\<rparr>"

text \<open>\<open>RowsAffected()\<close> of a statement (for \<open>CopyFrom\<close>, the number of rows copied).\<close>

fun rows_affected :: "stmt \<Rightarrow> database \<Rightarrow> nat" where
  "rows_affected (InsertHost r) d = 1"
| "rows_affected (UpdateHostHealthcheck h t) d =
     length (filter (\<lambda>r. host_id r = h) (hosts d))"
| "rows_affected (DeleteHostActorTypes h) d =
     length (filter (\<lambda>r. t_host_id r = h) (hosts_actor_types d))"
| "rows_affected (CopyFromHostActorTypes rs) d = length rs"
| "rows_affected (DeleteHost h) d = length (filter (\<lambda>r. host_id r = h) (hosts d))"
| "rows_affected (DeleteActor t i) d =
     length (filter (\<lambda>r. a_actor_type r = t \<and> a_actor_id r = i) (actors d))"

text \<open>
  A call goes through the pool (\<open>p.db\<close>: a connection of its own, each statement
  committed at once) or through the open transaction (\<open>tx\<close>).
\<close>

datatype conn = Pool | Tx

datatype call =
    PingDB
  | Migrate
  | Begin
  | Exec conn stmt
  | Lookup string string
  | Commit
  | Rollback
  | Wait int "ctxerr option"

text \<open>
  The world of a call:
  \<^item> \<open>committed\<close>: the tables as every connection sees them;
  \<^item> \<open>pending\<close>: the writes of the open transaction in order, visible to the
    transaction only, or \<open>None\<close> when no transaction is open;
  \<^item> \<open>next_id\<close> and \<open>clock\<close>: the server's generator of host IDs and its time;
  \<^item> \<open>faults\<close>: for each coming call to the server, the error it fails with, or
    \<open>None\<close> when it goes through (also once the list is used up). Constraint
    violations, timeouts and lost connections are such answers: the schema and its
    constraints are the server's;
  \<^item> \<open>cancels\<close>: for each coming backoff wait, the context's error when the
    context is done before the timer fires, or \<open>None\<close>;
  \<^item> \<open>calls\<close>: the calls made so far; \<open>logged\<close>: the error log.
\<close>

record world =
  committed :: database
  pending :: "stmt list option"
  next_id :: nat
  clock :: int
  faults :: "dberr option list"
  cancels :: "ctxerr option list"
  calls :: "call list"
  logged :: "string list"

definition gen_host_id :: "nat \<Rightarrow> string" where
  "gen_host_id n = ''host-'' @ replicate n (CHR ''i'')"

text \<open>Record a call and take the server's answer to it.\<close>

definition request :: "call \<Rightarrow> world \<Rightarrow> dberr option \<times> world" where
  "request c s =
    (case faults s of
       [] \<Rightarrow> (None, s\<lparr>calls := calls s @ [c]\<rparr>)
     | f # fs \<Rightarrow> (f, s\<lparr>faults := fs, calls := calls s @ [c]\<rparr>))"

definition logError :: "string \<Rightarrow> world \<Rightarrow> world" where
  "logError msg s = s\<lparr>logged := logged s @ [msg]\<rparr>"

text \<open>What the open transaction sees: the committed tables with its own writes.\<close>

definition tx_view :: "world \<Rightarrow> database" where
  "tx_view s =
    (case pending s of
       None \<Rightarrow> committed s
     | Some ws \<Rightarrow> foldl (\<lambda>d w. exec_stmt w d) (committed s) ws)"

text \<open>
  \<open>Exec\<close> and \<open>CopyFrom\<close>: the error, or the number of rows affected. Through the
  pool the statement is committed at once; through the transaction it joins the
  pending writes. A transaction that is closed refuses the call without sending it.
\<close>

definition db_exec :: "conn \<Rightarrow> stmt \<Rightarrow> world \<Rightarrow> (dberr + nat) \<times> world" where
  "db_exec c st s =
    (case c of
       Pool \<Rightarrow>
         (case request (Exec Pool st) s of
            (Some e, s1) \<Rightarrow> (Inl e, s1)
          | (None, s1) \<Rightarrow>
              (Inr (rows_affected st (committed s1)),
               s1\<lparr>committed := exec_stmt st (committed s1)\<rparr>))
     | Tx \<Rightarrow>
         (case pending s of
            None \<Rightarrow> (Inl (OtherDbError ''tx is closed''), s)
          | Some ws \<Rightarrow>
              (case request (Exec Tx st) s of
                 (Some e, s1) \<Rightarrow> (Inl e, s1)
               | (None, s1) \<Rightarrow>
                   (Inr (rows_affected st (tx_view s1)),
                    s1\<lparr>pending := Some (ws @ [st])\<rparr>))))"

definition db_begin :: "world \<Rightarrow> dberr option \<times> world" where
  "db_begin s =
    (case request Begin s of
       (Some e, s1) \<Rightarrow> (Some e, s1)
     | (None, s1) \<Rightarrow> (None, s1\<lparr>pending := Some []\<rparr>))"

text \<open>
  \<open>Commit\<close> closes the transaction whether it succeeds or fails; the pending writes
  become visible only when it succeeds.
\<close>

definition tx_commit :: "world \<Rightarrow> dberr option \<times> world" where
  "tx_commit s =
    (case pending s of
       None \<Rightarrow> (Some (OtherDbError ''tx is closed''), s)
     | Some ws \<Rightarrow>
         (case request Commit s of
            (Some e, s1) \<Rightarrow> (Some e, s1\<lparr>pending := None\<rparr>)
          | (None, s1) \<Rightarrow> (None, s1\<lparr>committed := tx_view s1, pending := None\<rparr>)))"

text \<open>
  \<open>Rollback\<close> on a closed transaction (after a \<open>Commit\<close>, also a failed one) sends
  nothing and returns the error "tx is closed". On an open one it drops the pending
  writes whether or not the call reports an error.
\<close>

definition tx_rollback :: "world \<Rightarrow> dberr option \<times> world" where
  "tx_rollback s =
    (case pending s of
       None \<Rightarrow> (Some (OtherDbError ''tx is closed''), s)
     | Some ws \<Rightarrow>
         (case request Rollback s of (r, s1) \<Rightarrow> (r, s1\<lparr>pending := None\<rparr>)))"

definition db_ping :: "world \<Rightarrow> dberr option \<times> world" where
  "db_ping s = request PingDB s"

subsection \<open>Lifecycle\<close>

datatype pgxpool = PgxPool

record PostgreSQL =
  metadata :: pgMetadata
  db :: "pgxpool option"
  running :: bool

definition Ping :: "PostgreSQL \<Rightarrow> world \<Rightarrow> error option \<times> world" where
  "Ping p s =
    (if \<not> running p then (Some (New ''not running''), s)
     else case db p of
            None \<Rightarrow> (Some PanicNilPool, s)
          | Some _ \<Rightarrow> (case db_ping s of (None, s1) \<Rightarrow> (None, s1)
                       | (Some e, s1) \<Rightarrow> (Some (Db e), s1)))"

text \<open>
  Modelled from the spec: the migration runner (\<open>pgmigrations.Migrations.Perform\<close>)
  and the text of \<open>migration1Query\<close> are not among the sources. The runner applies
  the schema migrations once; here it is one call to the server, whose failure is the
  error of \<open>performMigrations\<close>.
\<close>

definition performMigrations :: "PostgreSQL \<Rightarrow> world \<Rightarrow> error option \<times> world" where
  "performMigrations p s =
    (case request Migrate s of
       (None, s1) \<Rightarrow> (None, s1)
     | (Some e, s1) \<Rightarrow> (Some (Wrap ''failed to create state table'' (Db e)), s1))"

text \<open>
  \<open>Init\<close>. \<open>p.running.CompareAndSwap(false, true)\<close> comes first; every later
  error is logged and returned with the flag left set. \<open>pgxpool.NewWithConfig\<close>
  assigns \<open>p.db\<close> (nil when it fails) without a call to the server.
\<close>

definition Init ::
  "externals \<Rightarrow> (string \<rightharpoonup> string) \<Rightarrow> PostgreSQL \<Rightarrow> world
    \<Rightarrow> error option \<times> PostgreSQL \<times> world" where
  "Init x md p s =
    (if running p then (Some (New ''already running''), p, s)
     else
       let p1 = p\<lparr>running := True\<rparr> in
       case InitWithMetadata x md (metadata p1) of
         (Some err, m) \<Rightarrow>
           (Some err, p1\<lparr>metadata := m\<rparr>, logError ''Failed to parse metadata'' s)
       | (None, m) \<Rightarrow>
           let p2 = p1\<lparr>metadata := m\<rparr> in
           (case getPgxPoolConfig x m of
              Some err \<Rightarrow> (Some err, p2, logError ''pool config'' s)
            | None \<Rightarrow>
                (case newWithConfig x m of
                   Some e \<Rightarrow>
                     (Some (Wrap ''failed to connect to the database'' e),
                      p2\<lparr>db := None\<rparr>,
                      logError ''failed to connect to the database'' s)
                 | None \<Rightarrow>
                     let p3 = p2\<lparr>db := Some PgxPool\<rparr> in
                     (case Ping p3 s of
                        (Some err, s2) \<Rightarrow>
                          (Some (Wrap ''failed to ping the database'' err), p3,
                           logError ''failed to ping the database'' s2)
                      | (None, s2) \<Rightarrow>
                          (case performMigrations p3 s2 of
                             (Some err, s3) \<Rightarrow> (Some err, p3, logError ''migrations'' s3)
                           | (None, s3) \<Rightarrow> (None, p3, s3))))))"

text \<open>
  \<open>Close\<close> calls itself when the store is running and \<open>p.db\<close> is not nil. A call
  that never returns has the value \<open>None\<close>; \<open>Some err\<close> is a return with the
  error value \<open>err\<close> (\<open>Some None\<close> is the return of nil).
\<close>

partial_function (option) Close :: "PostgreSQL \<Rightarrow> error option option" where
  "Close p =
    (if \<not> running p then Some None
     else if db p \<noteq> None then Option.bind (Close p) (\<lambda>err. Some err)
     else Some None)"

subsection \<open>Requests and responses\<close>

text \<open>
  The request and response structs of package \<open>actorstore\<close>. A Go slice that can be
  nil is a list option: \<open>None\<close> is the nil slice, \<open>Some []\<close> the empty one. A
  pointer that can be nil (\<open>LastHealthCheck\<close>) is an option too. Fields of different
  structs that share a name in Go carry the struct's initials here.
\<close>

record ActorHostType =
  ActorType :: string
  IdleTimeout :: int

record AddActorHostRequest =
  AppID :: string
  Address :: string
  ActorTypes :: "ActorHostType list option"
  ApiLevel :: int

record UpdateActorHostRequest =
  LastHealthCheck :: "int option"
  UAH_ActorTypes :: "ActorHostType list option"

record ActorRef =
  AR_ActorType :: string
  AR_ActorID :: string

record LookupActorResponse =
  LAR_AppID :: string
  LAR_Address :: string
  LAR_IdleTimeout :: int

text \<open>The elements of a slice: a nil slice has none.\<close>

definition elems :: "'a list option \<Rightarrow> 'a list" where
  "elems xs = (case xs of None \<Rightarrow> [] | Some ys \<Rightarrow> ys)"

subsection \<open>Transactions\<close>

text \<open>
  The deferred function of \<open>executeInTransaction\<close>, run when \<open>success\<close> is false:
  roll back, and only log the error of the rollback.
\<close>

definition deferred_rollback :: "world \<Rightarrow> world" where
  "deferred_rollback s =
    (case tx_rollback s of
       (None, s1) \<Rightarrow> s1
     | (Some e, s1) \<Rightarrow> logError ''Error while attempting to roll back transaction'' s1)"

text \<open>
  \<open>executeInTransaction\<close>: begin, run the callback, commit; roll back when the
  callback or the commit fails. \<open>zero\<close> is the zero value of the result type, which
  is what \<open>res\<close> holds when \<open>Begin\<close> fails.
\<close>

definition executeInTransaction ::
  "pgxpool option \<Rightarrow> 'a \<Rightarrow> (world \<Rightarrow> ('a \<times> error option) \<times> world) \<Rightarrow> world
    \<Rightarrow> ('a \<times> error option) \<times> world" where
  "executeInTransaction pool zero fn s =
    (case pool of
       None \<Rightarrow> ((zero, Some PanicNilPool), s)
     | Some _ \<Rightarrow>
         (case db_begin s of
            (Some e, s1) \<Rightarrow> ((zero, Some (Wrap ''failed to begin transaction'' (Db e))), s1)
          | (None, s1) \<Rightarrow>
              (case fn s1 of
                 ((res, Some err), s2) \<Rightarrow> ((res, Some err), deferred_rollback s2)
               | ((res, None), s2) \<Rightarrow>
                   (case tx_commit s2 of
                      (Some e, s3) \<Rightarrow>
                        ((res, Some (Wrap ''failed to commit transaction'' (Db e))),
                         deferred_rollback s3)
                    | (None, s3) \<Rightarrow> ((res, None), s3)))))"

subsection \<open>Hosts\<close>

text \<open>
  The \<open>QueryRow(...).Scan(&hostID)\<close> of the host insert, through the transaction:
  the server generates the host ID and stamps the row with its time.
\<close>

definition tx_insert_host ::
  "string \<Rightarrow> string \<Rightarrow> int \<Rightarrow> world \<Rightarrow> (dberr + string) \<times> world" where
  "tx_insert_host address appID apiLevel s =
    (let r = \<lparr>host_id = gen_host_id (next_id s), host_address = address,
               host_app_id = appID, host_actors_api_level = apiLevel,
               host_last_healthcheck = clock s\<rparr>
     in case db_exec Tx (InsertHost r) s of
          (Inl e, s1) \<Rightarrow> (Inl e, s1)
        | (Inr n, s1) \<Rightarrow> (Inr (host_id r), s1\<lparr>next_id := Suc (next_id s1)\<rparr>))"

text \<open>\<open>insertHostActorTypes\<close>: always through the transaction it is given.\<close>

definition insertHostActorTypes ::
  "string \<Rightarrow> ActorHostType list option \<Rightarrow> world \<Rightarrow> error option \<times> world" where
  "insertHostActorTypes actorHostID actorTypes s =
    (if length (elems actorTypes) = 0 then (None, s)
     else
       let rows = map (\<lambda>t. \<lparr>t_host_id = actorHostID, t_actor_type = ActorType t,
                             t_actor_idle_timeout = IdleTimeout t\<rparr>) (elems actorTypes)
       in case db_exec Tx (CopyFromHostActorTypes rows) s of
            (Inl e, s1) \<Rightarrow>
              (Some (Wrap ''failed to insert supported actor types in hosts actor types table''
                       (Db e)), s1)
          | (Inr n, s1) \<Rightarrow>
              if n \<noteq> length (elems actorTypes)
              then (Some (New ''failed to insert supported actor types in hosts actor types table: row count''), s1)
              else (None, s1))"

definition AddActorHost ::
  "PostgreSQL \<Rightarrow> AddActorHostRequest \<Rightarrow> world \<Rightarrow> (string \<times> error option) \<times> world" where
  "AddActorHost p properties s =
    (if AppID properties = [] \<or> Address properties = [] \<or> ApiLevel properties \<le> 0
     then (([], Some ErrInvalidRequestMissingParameters), s)
     else
       executeInTransaction (db p) []
         (\<lambda>s0.
            case tx_insert_host (Address properties) (AppID properties)
                   (ApiLevel properties) s0 of
              (Inl err, s1) \<Rightarrow>
                if isUniqueViolationError (Some err)
                then (([], Some ErrActorHostConflict), s1)
                else (([], Some (Wrap ''failed to insert actor host in hosts table'' (Db err))),
                      s1)
            | (Inr hostID, s1) \<Rightarrow>
                (case insertHostActorTypes hostID (ActorTypes properties) s1 of
                   (Some err, s2) \<Rightarrow> (([], Some err), s2)
                 | (None, s2) \<Rightarrow> ((hostID, None), s2)))
         s)"

text \<open>
  \<open>updateHostsTable\<close>, through the connection it is given: nothing to do without a
  \<open>LastHealthCheck\<close>.
\<close>

definition updateHostsTable ::
  "conn \<Rightarrow> string \<Rightarrow> UpdateActorHostRequest \<Rightarrow> world \<Rightarrow> error option \<times> world" where
  "updateHostsTable c actorHostID properties s =
    (case LastHealthCheck properties of
       None \<Rightarrow> (None, s)
     | Some t \<Rightarrow>
         (case db_exec c (UpdateHostHealthcheck actorHostID t) s of
            (Inl e, s1) \<Rightarrow> (Some (Wrap ''failed to update actor host'' (Db e)), s1)
          | (Inr n, s1) \<Rightarrow> if n = 0 then (Some ErrActorHostNotFound, s1) else (None, s1)))"

text \<open>
  \<open>UpdateActorHost\<close>. Without actor types, one statement through the pool (on this
  path \<open>LastHealthCheck\<close> is present, so the statement is sent and a nil \<open>p.db\<close>
  panics). With them, a transaction whose callback updates the host through \<open>tx\<close>,
  deletes the old actor types with \<open>p.db.Exec\<close>, that is through the pool, and
  inserts the new ones through \<open>tx\<close>.
\<close>

definition UpdateActorHost ::
  "PostgreSQL \<Rightarrow> string \<Rightarrow> UpdateActorHostRequest \<Rightarrow> world \<Rightarrow> error option \<times> world" where
  "UpdateActorHost p actorHostID properties s =
    (if actorHostID = [] \<or>
        (LastHealthCheck properties = None \<and> UAH_ActorTypes properties = None)
     then (Some ErrInvalidRequestMissingParameters, s)
     else if UAH_ActorTypes properties = None then
       (case db p of
          None \<Rightarrow> (Some PanicNilPool, s)
        | Some _ \<Rightarrow> updateHostsTable Pool actorHostID properties s)
     else
       (case executeInTransaction (db p) ()
               (\<lambda>s0.
                  case updateHostsTable Tx actorHostID properties s0 of
                    (Some zErr, s1) \<Rightarrow> (((), Some zErr), s1)
                  | (None, s1) \<Rightarrow>
                      (case db_exec Pool (DeleteHostActorTypes actorHostID) s1 of
                         (Inl e, s2) \<Rightarrow>
                           (((), Some (Wrap ''failed to delete old host actor types'' (Db e))),
                            s2)
                       | (Inr n, s2) \<Rightarrow>
                           (case insertHostActorTypes actorHostID
                                   (UAH_ActorTypes properties) s2 of
                              (Some zErr, s3) \<Rightarrow> (((), Some zErr), s3)
                            | (None, s3) \<Rightarrow> (((), None), s3))))
               s of
          ((z, err), s') \<Rightarrow> (err, s')))"

definition RemoveActorHost ::
  "PostgreSQL \<Rightarrow> string \<Rightarrow> world \<Rightarrow> error option \<times> world" where
  "RemoveActorHost p actorHostID s =
    (if actorHostID = [] then (Some ErrInvalidRequestMissingParameters, s)
     else case db p of
            None \<Rightarrow> (Some PanicNilPool, s)
          | Some _ \<Rightarrow>
              (case db_exec Pool (DeleteHost actorHostID) s of
                 (Inl e, s1) \<Rightarrow> (Some (Wrap ''failed to remove actor host'' (Db e)), s1)
               | (Inr n, s1) \<Rightarrow>
                   if n = 0 then (Some ErrActorHostNotFound, s1) else (None, s1)))"

subsection \<open>Actors\<close>

text \<open>
  The text of \<open>lookupActorQuery\<close> is not among the sources, so the query is a
  parameter: from the actor type, the actor ID and the tables, the row it returns with
  the tables it leaves, or \<open>None\<close> when it returns no row.
\<close>

type_synonym lookup_query =
  "string \<Rightarrow> string \<Rightarrow> database \<Rightarrow> (LookupActorResponse \<times> database) option"

definition pool_lookup ::
  "lookup_query \<Rightarrow> string \<Rightarrow> string \<Rightarrow> world \<Rightarrow> (dberr + LookupActorResponse) \<times> world" where
  "pool_lookup q t i s =
    (case request (Lookup t i) s of
       (Some e, s1) \<Rightarrow> (Inl e, s1)
     | (None, s1) \<Rightarrow>
         (case q t i (committed s1) of
            None \<Rightarrow> (Inl ErrNoRows, s1)
          | Some (r, d) \<Rightarrow> (Inr r, s1\<lparr>committed := d\<rparr>)))"

text \<open>
  The \<open>select\<close> of the backoff: the 50ms timer fires (\<open>None\<close>) or the context is
  done first, with its error.
\<close>

definition backoff :: "world \<Rightarrow> ctxerr option \<times> world" where
  "backoff s =
    (case cancels s of
       [] \<Rightarrow> (None, s\<lparr>calls := calls s @ [Wait (50 * Millisecond) None]\<rparr>)
     | c # cs \<Rightarrow> (c, s\<lparr>cancels := cs, calls := calls s @ [Wait (50 * Millisecond) c]\<rparr>))"

text \<open>
  The loop of \<open>LookupActor\<close>, from \<open>i\<close> on. \<open>res\<close> is the named result, written
  by \<open>Scan\<close> only when the query returns a row; leaving the loop, by \<open>break\<close> or
  because \<open>i\<close> has reached 3, is followed by \<open>return res, nil\<close>.
\<close>

function LookupActor_loop ::
  "lookup_query \<Rightarrow> ActorRef \<Rightarrow> nat \<Rightarrow> LookupActorResponse \<Rightarrow> world
    \<Rightarrow> (LookupActorResponse \<times> error option) \<times> world" where
  "LookupActor_loop q ref i res s =
    (if i < 3 then
       (case pool_lookup q (AR_ActorType ref) (AR_ActorID ref) s of
          (Inr row, s1) \<Rightarrow> ((row, None), s1)
        | (Inl err, s1) \<Rightarrow>
            if err = ErrNoRows then ((res, Some ErrNoActorHost), s1)
            else if isUniqueViolationError (Some err) then
              (case backoff s1 of
                 (Some c, s2) \<Rightarrow> ((res, Some (Ctx c)), s2)
               | (None, s2) \<Rightarrow> LookupActor_loop q ref (i + 1) res s2)
            else ((res, Some (Wrap ''database error'' (Db err))), s1))
     else ((res, None), s))"
  by pat_completeness auto
termination
  by (relation "measure (\<lambda>(q, ref, i, res, s). 3 - i)") auto

declare LookupActor_loop.simps [simp del]

definition LookupActor ::
  "lookup_query \<Rightarrow> PostgreSQL \<Rightarrow> ActorRef \<Rightarrow> world
    \<Rightarrow> (LookupActorResponse \<times> error option) \<times> world" where
  "LookupActor q p ref s =
    (let res = \<lparr>LAR_AppID = [], LAR_Address = [], LAR_IdleTimeout = 0\<rparr> in
     if AR_ActorType ref = [] \<or> AR_ActorID ref = []
     then ((res, Some ErrInvalidRequestMissingParameters), s)
     else case db p of
            None \<Rightarrow> ((res, Some PanicNilPool), s)
          | Some _ \<Rightarrow> LookupActor_loop q ref 0 res s)"

definition RemoveActor ::
  "PostgreSQL \<Rightarrow> ActorRef \<Rightarrow> world \<Rightarrow> error option \<times> world" where
  "RemoveActor p ref s =
    (if AR_ActorType ref = [] \<or> AR_ActorID ref = []
     then (Some ErrInvalidRequestMissingParameters, s)
     else case db p of
            None \<Rightarrow> (Some PanicNilPool, s)
          | Some _ \<Rightarrow>
              (case db_exec Pool (DeleteActor (AR_ActorType ref) (AR_ActorID ref)) s of
                 (Inl e, s1) \<Rightarrow> (Some (Wrap ''failed to remove actor'' (Db e)), s1)
               | (Inr n, s1) \<Rightarrow>
                   if n = 0 then (Some ErrActorNotFound, s1) else (None, s1)))"

subsection \<open>Reading the log of calls\<close>

text \<open>A query of \<open>LookupActor\<close>, that is, one attempt.\<close>

fun is_lookup :: "call \<Rightarrow> bool" where
  "is_lookup (Lookup t i) = True"
| "is_lookup _ = False"


text \<open>
  A sequence of calls in which every query is followed by nothing or by a wait of
  50 milliseconds, and in which nothing follows a wait that the context cut short.
\<close>

fun spaced :: "call list \<Rightarrow> bool" where
  "spaced [] = True"
| "spaced [Lookup t i] = True"
| "spaced (Lookup t i # Wait d c # cs) =
     (d = 50 * Millisecond \<and> (c = None \<or> cs = []) \<and> spaced cs)"
| "spaced _ = False"

subsection \<open>Reminders\<close>

text \<open>
  Modelled from the spec: \<open>DeleteReminder\<close> (the reminder store is not among the
  sources). A reminder is identified by actor type, actor ID and reminder name;
  deleting one that is absent fails with \<open>ReminderNotFound\<close>, deleting one that is
  present removes it.
\<close>

record reminder_row =
  r_actor_type :: string
  r_actor_id :: string
  r_reminder_name :: string
  r_execution_time :: int

record ReminderRef =
  RR_ActorType :: string
  RR_ActorID :: string
  RR_Name :: string

definition is_reminder :: "ReminderRef \<Rightarrow> reminder_row \<Rightarrow> bool" where
  "is_reminder ref r =
    (r_actor_type r = RR_ActorType ref \<and> r_actor_id r = RR_ActorID ref
     \<and> r_reminder_name r = RR_Name ref)"

definition DeleteReminder ::
  "ReminderRef \<Rightarrow> reminder_row list \<Rightarrow> error option \<times> reminder_row list" where
  "DeleteReminder ref rs =
    (if filter (is_reminder ref) rs = [] then (Some ErrReminderNotFound, rs)
     else (None, filter (\<lambda>r. \<not> is_reminder ref r) rs))"

subsection \<open>Example inputs\<close>

text \<open>\<open>NewPostgreSQLActorStore\<close>: every field at its zero value (the logger left out).\<close>

definition NewPostgreSQLActorStore :: PostgreSQL where
  "NewPostgreSQLActorStore =
    \<lparr>metadata = \<lparr>TablePrefix = [], MetadataTableName = [], Timeout = 0\<rparr>,
     db = None, running = False\<rparr>"

text \<open>A store as a successful \<open>Init\<close> with no properties leaves it.\<close>

definition running_store :: PostgreSQL where
  "running_store =
    \<lparr>metadata = \<lparr>TablePrefix = [], MetadataTableName = ''dapr_metadata'',
                  Timeout = 20 * Second\<rparr>,
     db = Some PgxPool, running = True\<rparr>"

text \<open>
  Collaborators for the examples: a decoder that knows two durations, and
  authentication properties, a pool configuration and a pool that are always accepted.
\<close>

definition ext0 :: externals where
  "ext0 =
    \<lparr>decodeDuration =
       (\<lambda>v. if v = ''1s'' then Some (1 * Second)
            else if v = ''999ms'' then Some (999 * Millisecond) else None),
     authInitWithMetadata = (\<lambda>props. None),
     getPgxPoolConfig = (\<lambda>m. None),
     newWithConfig = (\<lambda>m. None)\<rparr>"

text \<open>
  A server with one host \<open>h1\<close> that has declared the actor type \<open>cat\<close>, and nothing
  else; the server answers every call.
\<close>

definition db1 :: database where
  "db1 =
    \<lparr>hosts = [\<lparr>host_id = ''h1'', host_address = ''addr1'', host_app_id = ''a1'',
               host_actors_api_level = 1, host_last_healthcheck = 0\<rparr>],
     hosts_actor_types = [\<lparr>t_host_id = ''h1'', t_actor_type = ''cat'',
                           t_actor_idle_timeout = 30\<rparr>],
     actors = []\<rparr>"

definition world1 :: world where
  "world1 =
    \<lparr>committed = db1, pending = None, next_id = 0, clock = 100, faults = [],
     cancels = [], calls = [], logged = []\<rparr>"

text \<open>
  A query for the examples: it places the actor on the first host that has declared
  its type, and returns no row when there is none.
\<close>

definition example_query :: lookup_query where
  "example_query t i d =
    (case filter (\<lambda>r. t_actor_type r = t) (hosts_actor_types d) of
       [] \<Rightarrow> None
     | r # rs \<Rightarrow>
         (case filter (\<lambda>h. host_id h = t_host_id r) (hosts d) of
            [] \<Rightarrow> None
          | h # hs \<Rightarrow>
              Some (\<lparr>LAR_AppID = host_app_id h, LAR_Address = host_address h,
                      LAR_IdleTimeout = t_actor_idle_timeout r\<rparr>,
                    d\<lparr>actors := actors d @
                        [\<lparr>a_actor_type = t, a_actor_id = i, a_host_id = host_id h,
                          a_actor_idle_timeout = t_actor_idle_timeout r\<rparr>]\<rparr>)))"

section \<open>Properties\<close>

subsection \<open>What each call to the server changes\<close>

lemma request_frame:
  "request c s = (r, s1) \<Longrightarrow>
     committed s1 = committed s \<and> pending s1 = pending s \<and> calls s1 = calls s @ [c]
     \<and> logged s1 = logged s"
  by (auto simp: request_def split: list.splits)

lemma request_no_faults:
  "faults s = [] \<Longrightarrow> request c s = (None, s\<lparr>calls := calls s @ [c]\<rparr>)"
  by (simp add: request_def)


lemma db_exec_Pool_Inr:
  assumes "db_exec Pool st s = (Inr n, s1)"
  shows "committed s1 = exec_stmt st (committed s) \<and> pending s1 = pending s
     \<and> calls s1 = calls s @ [Exec Pool st] \<and> n = rows_affected st (committed s)"
proof -
  obtain r s0 where R: "request (Exec Pool st) s = (r, s0)"
    by (cases "request (Exec Pool st) s")
  note F = request_frame [OF R]
  from assms R F show ?thesis
    by (cases r) (auto simp: db_exec_def)
qed





text \<open>
  After a failed \<open>Commit\<close> the deferred function sends no \<open>Rollback\<close>: the
  transaction is closed, and the error of the rollback is logged.
\<close>

lemma deferred_rollback_closed:
  "pending s = None \<Longrightarrow>
     deferred_rollback s
       = logError ''Error while attempting to roll back transaction'' s"
  by (simp add: deferred_rollback_def tx_rollback_def)

lemma pool_lookup_calls:
  assumes "pool_lookup q t i s = (r, s1)"
  shows "calls s1 = calls s @ [Lookup t i]"
proof -
  obtain r0 s0 where R: "request (Lookup t i) s = (r0, s0)"
    by (cases "request (Lookup t i) s")
  note F = request_frame [OF R]
  from assms R F show ?thesis
    by (cases r0) (auto simp: pool_lookup_def split: option.splits)
qed

lemma backoff_calls:
  "backoff s = (c, s1) \<Longrightarrow> calls s1 = calls s @ [Wait (50 * Millisecond) c]"
  by (auto simp: backoff_def split: list.splits)

subsection \<open>Registering a host\<close>

lemma insertHostActorTypes_not_invalid:
  "fst (insertHostActorTypes h ts s) \<noteq> Some ErrInvalidRequestMissingParameters"
  by (simp add: insertHostActorTypes_def Let_def split: prod.splits sum.splits)


text \<open>
  A transaction returns \<open>InvalidRequest\<close> only if its callback does: the errors it
  adds are wrapped driver errors.
\<close>

lemma executeInTransaction_not_invalid:
  assumes "\<And>s0. snd (fst (fn s0)) \<noteq> Some ErrInvalidRequestMissingParameters"
  shows "snd (fst (executeInTransaction pool z fn s))
           \<noteq> Some ErrInvalidRequestMissingParameters"
proof (cases pool)
  case None
  then show ?thesis by (simp add: executeInTransaction_def)
next
  case (Some a)
  obtain b s1 where B: "db_begin s = (b, s1)"
    by (cases "db_begin s")
  show ?thesis
  proof (cases b)
    case (Some e)
    with B \<open>pool = Some a\<close> show ?thesis
      by (simp add: executeInTransaction_def)
  next
    case None
    obtain res err s2 where F: "fn s1 = ((res, err), s2)"
      by (cases "fn s1") auto
    have ne: "err \<noteq> Some ErrInvalidRequestMissingParameters"
      using assms [of s1] F by simp
    show ?thesis
    proof (cases err)
      case (Some e)
      with None B F ne \<open>pool = Some a\<close> show ?thesis
        by (simp add: executeInTransaction_def)
    next
      case N: None
      obtain c s3 where C: "tx_commit s2 = (c, s3)"
        by (cases "tx_commit s2")
      with None B F N \<open>pool = Some a\<close> show ?thesis
        by (cases c) (simp_all add: executeInTransaction_def)
    qed
  qed
qed

lemma AddActorHost_invalid:
  "AppID properties = [] \<or> Address properties = [] \<or> ApiLevel properties \<le> 0 \<Longrightarrow>
    AddActorHost p properties s = (([], Some ErrInvalidRequestMissingParameters), s)"
  by (simp add: AddActorHost_def)

lemma AddActorHost_valid_not_invalid:
  assumes "\<not> (AppID properties = [] \<or> Address properties = [] \<or> ApiLevel properties \<le> 0)"
  shows "snd (fst (AddActorHost p properties s)) \<noteq> Some ErrInvalidRequestMissingParameters"
proof -
  have "snd (fst (executeInTransaction (db p) []
         (\<lambda>s0.
            case tx_insert_host (Address properties) (AppID properties)
                   (ApiLevel properties) s0 of
              (Inl err, s1) \<Rightarrow>
                if isUniqueViolationError (Some err)
                then (([], Some ErrActorHostConflict), s1)
                else (([], Some (Wrap ''failed to insert actor host in hosts table'' (Db err))),
                      s1)
            | (Inr hostID, s1) \<Rightarrow>
                (case insertHostActorTypes hostID (ActorTypes properties) s1 of
                   (Some err, s2) \<Rightarrow> (([], Some err), s2)
                 | (None, s2) \<Rightarrow> ((hostID, None), s2)))
         s)) \<noteq> Some ErrInvalidRequestMissingParameters"
  proof (rule executeInTransaction_not_invalid)
    fix s0
    obtain r s1 where I: "tx_insert_host (Address properties) (AppID properties)
        (ApiLevel properties) s0 = (r, s1)"
      by (cases "tx_insert_host (Address properties) (AppID properties)
        (ApiLevel properties) s0")
    show "snd (fst (case tx_insert_host (Address properties) (AppID properties)
                   (ApiLevel properties) s0 of
              (Inl err, s1) \<Rightarrow>
                if isUniqueViolationError (Some err)
                then (([], Some ErrActorHostConflict), s1)
                else (([], Some (Wrap ''failed to insert actor host in hosts table'' (Db err))),
                      s1)
            | (Inr hostID, s1) \<Rightarrow>
                (case insertHostActorTypes hostID (ActorTypes properties) s1 of
                   (Some err, s2) \<Rightarrow> (([], Some err), s2)
                 | (None, s2) \<Rightarrow> ((hostID, None), s2))))
          \<noteq> Some ErrInvalidRequestMissingParameters"
    proof (cases r)
      case (Inl err)
      with I show ?thesis by simp
    next
      case (Inr hostID)
      obtain e s2 where J: "insertHostActorTypes hostID (ActorTypes properties) s1 = (e, s2)"
        by (cases "insertHostActorTypes hostID (ActorTypes properties) s1")
      from insertHostActorTypes_not_invalid [of hostID "ActorTypes properties" s1] J
      have "e \<noteq> Some ErrInvalidRequestMissingParameters" by simp
      with I Inr J show ?thesis by (cases e) simp_all
    qed
  qed
  with assms show ?thesis by (simp add: AddActorHost_def)
qed

lemma AddActorHost_conflict:
  assumes "\<not> (AppID properties = [] \<or> Address properties = [] \<or> ApiLevel properties \<le> 0)"
    and "db p = Some pool" and "db_begin s = (None, s1)"
    and "tx_insert_host (Address properties) (AppID properties) (ApiLevel properties) s1
          = (Inl e, s2)"
    and "isUniqueViolationError (Some e)"
  shows "AddActorHost p properties s = (([], Some ErrActorHostConflict), deferred_rollback s2)"
  using assms by (simp add: AddActorHost_def executeInTransaction_def)

lemma AddActorHost_no_types:
  assumes "\<not> (AppID properties = [] \<or> Address properties = [] \<or> ApiLevel properties \<le> 0)"
    and "db p = Some pool" and "faults s = []" and "elems (ActorTypes properties) = []"
  shows "snd (fst (AddActorHost p properties s)) = None"
  using assms
  by (simp add: AddActorHost_def executeInTransaction_def db_begin_def request_no_faults
      tx_insert_host_def db_exec_def insertHostActorTypes_def tx_commit_def Let_def)

text \<open>
  C6. \<open>AddActorHost\<close> returns \<open>InvalidRequest\<close> exactly when the address is empty,
  the application ID is empty or the API level is not positive; the actor types play
  no part, and with none of them a valid request goes through on a server that
  answers every call. A refused request leaves the world as it is: no call reaches the
  server. When the insert of the host row fails with a unique violation, the error is
  \<open>HostConflict\<close> and the transaction is rolled back.
\<close>

theorem AddActorHost_errors:
  "(snd (fst (AddActorHost p properties s)) = Some ErrInvalidRequestMissingParameters
      \<longleftrightarrow> (Address properties = [] \<or> AppID properties = [] \<or> ApiLevel properties \<le> 0))
   \<and> (Address properties = [] \<or> AppID properties = [] \<or> ApiLevel properties \<le> 0 \<longrightarrow>
        AddActorHost p properties s = (([], Some ErrInvalidRequestMissingParameters), s))
   \<and> (\<not> (Address properties = [] \<or> AppID properties = [] \<or> ApiLevel properties \<le> 0)
        \<and> db p = Some pool \<and> faults s = [] \<and> elems (ActorTypes properties) = [] \<longrightarrow>
        snd (fst (AddActorHost p properties s)) = None)
   \<and> (\<not> (Address properties = [] \<or> AppID properties = [] \<or> ApiLevel properties \<le> 0)
        \<and> db p = Some pool \<and> db_begin s = (None, s1)
        \<and> tx_insert_host (Address properties) (AppID properties) (ApiLevel properties) s1
            = (Inl e, s2)
        \<and> isUniqueViolationError (Some e) \<longrightarrow>
        AddActorHost p properties s
          = (([], Some ErrActorHostConflict), deferred_rollback s2))"
proof -
  have a: "snd (fst (AddActorHost p properties s)) = Some ErrInvalidRequestMissingParameters
      \<longleftrightarrow> (Address properties = [] \<or> AppID properties = [] \<or> ApiLevel properties \<le> 0)"
    using AddActorHost_invalid [of properties p s]
      AddActorHost_valid_not_invalid [of properties p s]
    by auto
  show ?thesis
    using a AddActorHost_invalid [of properties p s]
      AddActorHost_no_types [of properties p pool s]
      AddActorHost_conflict [of properties p pool s s1 e s2]
    by blast
qed

text \<open>
  The theorem at four requests: one with no address, one with API level 0, one with an
  empty list of actor types, and one whose host insert the server refuses as a
  duplicate.
\<close>

theorem AddActorHost_errors_witness:
  "AddActorHost running_store
      \<lparr>AppID = ''a2'', Address = [], ActorTypes = None, ApiLevel = 1\<rparr> world1
     = (([], Some ErrInvalidRequestMissingParameters), world1)
   \<and> AddActorHost running_store
      \<lparr>AppID = ''a2'', Address = ''addr2'', ActorTypes = None, ApiLevel = 0\<rparr> world1
     = (([], Some ErrInvalidRequestMissingParameters), world1)
   \<and> snd (fst (AddActorHost running_store
      \<lparr>AppID = ''a2'', Address = ''addr2'', ActorTypes = Some [], ApiLevel = 1\<rparr> world1))
     = None
   \<and> fst (AddActorHost running_store
      \<lparr>AppID = ''a1'', Address = ''addr1'', ActorTypes = None, ApiLevel = 1\<rparr>
      (world1\<lparr>faults := [None, Some (PgError UniqueViolation)]\<rparr>))
     = ([], Some ErrActorHostConflict)"
proof -
  let ?dup = "\<lparr>AppID = ''a1'', Address = ''addr1'', ActorTypes = None, ApiLevel = 1\<rparr>"
  let ?w = "world1\<lparr>faults := [None, Some (PgError UniqueViolation)]\<rparr>"
  have 1: "AddActorHost running_store
      \<lparr>AppID = ''a2'', Address = [], ActorTypes = None, ApiLevel = 1\<rparr> world1
     = (([], Some ErrInvalidRequestMissingParameters), world1)"
    using AddActorHost_errors [of running_store
        "\<lparr>AppID = ''a2'', Address = [], ActorTypes = None, ApiLevel = 1\<rparr>" world1]
    by simp
  have 2: "AddActorHost running_store
      \<lparr>AppID = ''a2'', Address = ''addr2'', ActorTypes = None, ApiLevel = 0\<rparr> world1
     = (([], Some ErrInvalidRequestMissingParameters), world1)"
    using AddActorHost_errors [of running_store
        "\<lparr>AppID = ''a2'', Address = ''addr2'', ActorTypes = None, ApiLevel = 0\<rparr>" world1]
    by simp
  have 3: "snd (fst (AddActorHost running_store
      \<lparr>AppID = ''a2'', Address = ''addr2'', ActorTypes = Some [], ApiLevel = 1\<rparr> world1))
     = None"
    using AddActorHost_errors [of running_store
        "\<lparr>AppID = ''a2'', Address = ''addr2'', ActorTypes = Some [], ApiLevel = 1\<rparr>" world1
        PgxPool]
    by (simp add: running_store_def world1_def elems_def)
  obtain b s1 where B: "db_begin ?w = (b, s1)"
    by (cases "db_begin ?w")
  have b: "b = None"
    using B by (simp add: db_begin_def request_def world1_def)
  obtain r s2 where I: "tx_insert_host ''addr1'' ''a1'' 1 s1 = (r, s2)"
    by (cases "tx_insert_host ''addr1'' ''a1'' 1 s1")
  have r: "r = Inl (PgError UniqueViolation)"
    using B I by (auto simp: db_begin_def request_def world1_def tx_insert_host_def db_exec_def)
  have 4: "fst (AddActorHost running_store ?dup ?w) = ([], Some ErrActorHostConflict)"
    using AddActorHost_errors [of running_store ?dup ?w PgxPool s1 "PgError UniqueViolation" s2]
      B b I r
    by (simp add: running_store_def)
  from 1 2 3 4 show ?thesis by simp
qed


subsection \<open>Configuration\<close>

text \<open>
  C8. Configuration parsing leaves \<open>tablePrefix\<close> empty, \<open>metadataTableName\<close> at
  \<open>dapr_metadata\<close> and \<open>timeout\<close> at 20 seconds when their keys are absent, and
  takes the configured prefix and metadata table name when they are present. A
  configured timeout strictly below one second is refused with an error, and one of
  exactly one second or more is accepted (the authentication properties being valid).
  The physical name of a table is the prefix followed by the table's logical name
  (\<open>hosts\<close>, \<open>hosts_actor_types\<close>, \<open>actors\<close>): for the metadata that parsing
  leaves, the configured prefix, or nothing when none is configured.
\<close>

theorem InitWithMetadata_config:
  "(props ''tablePrefix'' = None \<longrightarrow> TablePrefix (snd (InitWithMetadata x props m0)) = [])
   \<and> (props ''metadataTableName'' = None \<longrightarrow>
        MetadataTableName (snd (InitWithMetadata x props m0)) = ''dapr_metadata'')
   \<and> (props ''timeout'' = None \<longrightarrow> Timeout (snd (InitWithMetadata x props m0)) = 20 * Second)
   \<and> (props ''timeout'' = Some v \<and> decodeDuration x v = Some d \<and> d < 1 * Second \<longrightarrow>
        fst (InitWithMetadata x props m0) \<noteq> None)
   \<and> (props ''timeout'' = Some v \<and> decodeDuration x v = Some d \<and> 1 * Second \<le> d
        \<and> authInitWithMetadata x props = None \<longrightarrow>
        fst (InitWithMetadata x props m0) = None
        \<and> Timeout (snd (InitWithMetadata x props m0)) = d)
   \<and> TableName m table = TablePrefix m @ table
   \<and> (props ''tablePrefix'' = Some pre \<longrightarrow>
        TablePrefix (snd (InitWithMetadata x props m0)) = pre)
   \<and> (props ''metadataTableName'' = Some mt \<longrightarrow>
        MetadataTableName (snd (InitWithMetadata x props m0)) = mt)
   \<and> TableName (snd (InitWithMetadata x props m0)) table
        = (case props ''tablePrefix'' of None \<Rightarrow> [] | Some pre \<Rightarrow> pre) @ table
   \<and> TableName m pgTableHosts = TablePrefix m @ ''hosts''
   \<and> TableName m pgTableHostsActorTypes = TablePrefix m @ ''hosts_actor_types''
   \<and> TableName m pgTableActors = TablePrefix m @ ''actors''"
  by (auto simp: InitWithMetadata_def DecodeMetadata_def TableName_def Let_def
      pgTableHosts_def pgTableHostsActorTypes_def pgTableActors_def
      split: option.splits prod.splits)

text \<open>
  The theorem at four property maps: no properties, a timeout of one second, a
  timeout of 999 milliseconds, and a table prefix with a metadata table name.
\<close>

theorem InitWithMetadata_config_witness:
  "InitWithMetadata ext0 Map.empty (metadata NewPostgreSQLActorStore)
     = (None, \<lparr>TablePrefix = [], MetadataTableName = ''dapr_metadata'',
                Timeout = 20 * Second\<rparr>)
   \<and> InitWithMetadata ext0 [''timeout'' \<mapsto> ''1s''] (metadata NewPostgreSQLActorStore)
     = (None, \<lparr>TablePrefix = [], MetadataTableName = ''dapr_metadata'',
                Timeout = 1 * Second\<rparr>)
   \<and> fst (InitWithMetadata ext0 [''timeout'' \<mapsto> ''999ms''] (metadata NewPostgreSQLActorStore))
     \<noteq> None
   \<and> TableName (metadata running_store) pgTableHostsActorTypes = ''hosts_actor_types''
   \<and> InitWithMetadata ext0 [''tablePrefix'' \<mapsto> ''app1_'', ''metadataTableName'' \<mapsto> ''meta'']
        (metadata NewPostgreSQLActorStore)
     = (None, \<lparr>TablePrefix = ''app1_'', MetadataTableName = ''meta'',
                Timeout = 20 * Second\<rparr>)
   \<and> TableName (snd (InitWithMetadata ext0
          [''tablePrefix'' \<mapsto> ''app1_'', ''metadataTableName'' \<mapsto> ''meta'']
          (metadata NewPostgreSQLActorStore))) pgTableHosts = ''app1_hosts''
   \<and> TableName (snd (InitWithMetadata ext0
          [''tablePrefix'' \<mapsto> ''app1_'', ''metadataTableName'' \<mapsto> ''meta'']
          (metadata NewPostgreSQLActorStore))) pgTableHostsActorTypes
        = ''app1_hosts_actor_types''
   \<and> TableName (snd (InitWithMetadata ext0
          [''tablePrefix'' \<mapsto> ''app1_'', ''metadataTableName'' \<mapsto> ''meta'']
          (metadata NewPostgreSQLActorStore))) pgTableActors = ''app1_actors''"
proof -
  let ?m0 = "metadata NewPostgreSQLActorStore"
  let ?pp = "[''tablePrefix'' \<mapsto> ''app1_'', ''metadataTableName'' \<mapsto> ''meta'']"
  have d1: "decodeDuration ext0 ''1s'' = Some (1 * Second)"
    by (simp add: ext0_def)
  have d2: "decodeDuration ext0 ''999ms'' = Some (999 * Millisecond)"
    by (simp add: ext0_def)
  have lt: "999 * Millisecond < 1 * Second"
    by (simp add: Millisecond_def Second_def)
  have au: "\<And>props. authInitWithMetadata ext0 props = None"
    by (simp add: ext0_def)
  note a = InitWithMetadata_config [where props = Map.empty and x = ext0 and ?m0.0 = ?m0
      and m = "metadata running_store" and table = "[]" and v = "[]" and d = 0
      and pre = "[]" and mt = "[]"]
  note b = InitWithMetadata_config [where props = "[''timeout'' \<mapsto> ''1s'']" and x = ext0
      and ?m0.0 = ?m0 and v = "''1s''" and d = "1 * Second"
      and m = "metadata running_store" and table = "[]" and pre = "[]" and mt = "[]"]
  note c = InitWithMetadata_config [where props = "[''timeout'' \<mapsto> ''999ms'']" and x = ext0
      and ?m0.0 = ?m0 and v = "''999ms''" and d = "999 * Millisecond"
      and m = "metadata running_store" and table = "[]" and pre = "[]" and mt = "[]"]
  note p = InitWithMetadata_config [where props = ?pp and x = ext0 and ?m0.0 = ?m0
      and pre = "''app1_''" and mt = "''meta''" and v = "[]" and d = 0
      and m = "snd (InitWithMetadata ext0 ?pp ?m0)" and table = "[]"]
  have e1: "fst (InitWithMetadata ext0 Map.empty ?m0) = None"
    by (simp add: InitWithMetadata_def DecodeMetadata_def au Second_def)
  have r1: "snd (InitWithMetadata ext0 Map.empty ?m0)
      = \<lparr>TablePrefix = [], MetadataTableName = ''dapr_metadata'', Timeout = 20 * Second\<rparr>"
    using a by (cases "snd (InitWithMetadata ext0 Map.empty ?m0)") simp
  have r2: "snd (InitWithMetadata ext0 [''timeout'' \<mapsto> ''1s''] ?m0)
      = \<lparr>TablePrefix = [], MetadataTableName = ''dapr_metadata'', Timeout = 1 * Second\<rparr>"
    using b d1 au
    by (cases "snd (InitWithMetadata ext0 [''timeout'' \<mapsto> ''1s''] ?m0)") simp
  have e2: "fst (InitWithMetadata ext0 [''timeout'' \<mapsto> ''1s''] ?m0) = None"
    using b d1 au by simp
  have e3: "fst (InitWithMetadata ext0 [''timeout'' \<mapsto> ''999ms''] ?m0) \<noteq> None"
    using c d2 lt by simp
  have t: "TableName (metadata running_store) pgTableHostsActorTypes = ''hosts_actor_types''"
    using a by (simp add: running_store_def)
  have e4: "fst (InitWithMetadata ext0 ?pp ?m0) = None"
    by (simp add: InitWithMetadata_def DecodeMetadata_def au Second_def)
  have r4: "snd (InitWithMetadata ext0 ?pp ?m0)
      = \<lparr>TablePrefix = ''app1_'', MetadataTableName = ''meta'', Timeout = 20 * Second\<rparr>"
    using p by (cases "snd (InitWithMetadata ext0 ?pp ?m0)") simp
  have t1: "TableName (snd (InitWithMetadata ext0 ?pp ?m0)) pgTableHosts = ''app1_hosts''"
    using p by simp
  have t2: "TableName (snd (InitWithMetadata ext0 ?pp ?m0)) pgTableHostsActorTypes
      = ''app1_hosts_actor_types''"
    using p by simp
  have t3: "TableName (snd (InitWithMetadata ext0 ?pp ?m0)) pgTableActors = ''app1_actors''"
    using p by simp
  from e1 r1 e2 r2 e3 t e4 r4 t1 t2 t3 show ?thesis
    by (simp add: prod_eq_iff)
qed

subsection \<open>Lifecycle\<close>

text \<open>
  C9. \<open>Init\<close> is guarded by the \<open>running\<close> flag: on a running store it returns the
  "already running" error and leaves the store and the world as they are; whatever an
  \<open>Init\<close> call does and returns, the flag is set afterwards, so every \<open>Init\<close> that
  follows a first one, also a failed one, returns "already running" without changing
  anything; and \<open>Ping\<close> returns the "not running" error whenever the flag is unset.
\<close>

theorem Init_guard:
  "(running p \<longrightarrow> Init x md p s = (Some (New ''already running''), p, s))
   \<and> running (fst (snd (Init x md p s)))
   \<and> (Init x md p s = (e, p', s') \<longrightarrow>
        Init x' md' p' s'' = (Some (New ''already running''), p', s''))
   \<and> (\<not> running p \<longrightarrow> Ping p s = (Some (New ''not running''), s))"
proof -
  have a: "\<And>x md p s. running p \<Longrightarrow> Init x md p s = (Some (New ''already running''), p, s)"
    by (simp add: Init_def)
  have b: "\<And>x md p s. running (fst (snd (Init x md p s)))"
    by (simp add: Init_def Let_def split: prod.splits option.splits)
  have c: "Init x' md' p' s'' = (Some (New ''already running''), p', s'')"
    if h: "Init x md p s = (e, p', s')"
  proof -
    have "running p'" using b [of x md p s] h by simp
    then show ?thesis by (rule a)
  qed
  have d: "\<not> running p \<Longrightarrow> Ping p s = (Some (New ''not running''), s)"
    by (simp add: Ping_def)
  from a b c d show ?thesis by blast
qed

text \<open>
  The theorem at a new store whose first \<open>Init\<close> cannot reach the server, which
  its ping reports: the second \<open>Init\<close> is refused; and at the running store.
\<close>

theorem Init_guard_witness:
  "fst (Init ext0 Map.empty NewPostgreSQLActorStore
          (world1\<lparr>faults := [Some (OtherDbError ''connection refused'')]\<rparr>))
     = Some (Wrap ''failed to ping the database''
               (Db (OtherDbError ''connection refused'')))
   \<and> (case Init ext0 Map.empty NewPostgreSQLActorStore
              (world1\<lparr>faults := [Some (OtherDbError ''connection refused'')]\<rparr>) of
        (e, p', s') \<Rightarrow>
          Init ext0 Map.empty p' world1 = (Some (New ''already running''), p', world1))
   \<and> Init ext0 Map.empty running_store world1
        = (Some (New ''already running''), running_store, world1)
   \<and> Ping NewPostgreSQLActorStore world1 = (Some (New ''not running''), world1)"
proof -
  let ?w = "world1\<lparr>faults := [Some (OtherDbError ''connection refused'')]\<rparr>"
  obtain e p' s' where r: "Init ext0 Map.empty NewPostgreSQLActorStore ?w = (e, p', s')"
    by (cases "Init ext0 Map.empty NewPostgreSQLActorStore ?w") blast
  have 1: "fst (Init ext0 Map.empty NewPostgreSQLActorStore ?w)
      = Some (Wrap ''failed to ping the database''
               (Db (OtherDbError ''connection refused'')))"
    by (simp add: Init_def InitWithMetadata_def DecodeMetadata_def ext0_def Ping_def
        db_ping_def NewPostgreSQLActorStore_def Second_def request_def world1_def)
  have 2: "Init ext0 Map.empty p' world1 = (Some (New ''already running''), p', world1)"
    using Init_guard [of NewPostgreSQLActorStore ext0 Map.empty ?w e p' s' ext0 Map.empty world1] r
    by simp
  have 3: "Init ext0 Map.empty running_store world1
        = (Some (New ''already running''), running_store, world1)"
    using Init_guard [of running_store ext0 Map.empty world1]
    by (simp add: running_store_def)
  have 4: "Ping NewPostgreSQLActorStore world1 = (Some (New ''not running''), world1)"
    using Init_guard [of NewPostgreSQLActorStore _ _ world1]
    by (simp add: NewPostgreSQLActorStore_def)
  from 1 2 3 4 r show ?thesis by simp
qed

text \<open>
  A call of \<open>Close\<close> that returns was made on a store that is not running or has no
  pool.
\<close>

lemma Close_returns_D:
  assumes "Close p = Some y"
  shows "\<not> running p \<or> db p = None"
  using assms
proof (induction rule: Close.raw_induct [rotated 1, consumes 1])
  case (1 Close' p y)
  then show ?case
    by (auto split: if_splits simp: bind_eq_Some_conv)
qed

text \<open>
  C10. On a running store with a pool, \<open>Close\<close> does not return: it calls itself and
  never reaches the pool. (On a store that is not running it returns nil.)
\<close>

theorem Close_never_returns:
  "Close running_store = None \<and> Close NewPostgreSQLActorStore = Some None"
proof
  show "Close running_store = None"
  proof (cases "Close running_store")
    case None
    then show ?thesis .
  next
    case (Some y)
    from Close_returns_D [OF Some] show ?thesis
      by (simp add: running_store_def)
  qed
  show "Close NewPostgreSQLActorStore = Some None"
    by (subst Close.simps) (simp add: NewPostgreSQLActorStore_def)
qed

subsection \<open>Updating and removing\<close>



lemma updateHostsTable_zero_rows:
  "LastHealthCheck props = Some t \<Longrightarrow>
   db_exec c (UpdateHostHealthcheck h t) s = (Inr 0, s1) \<Longrightarrow>
   updateHostsTable c h props s = (Some ErrActorHostNotFound, s1)"
  by (simp add: updateHostsTable_def)



lemma UpdateActorHost_pool_zero_rows:
  assumes "db p = Some pool" "h \<noteq> []" "UAH_ActorTypes props = None"
    "LastHealthCheck props = Some t"
    "db_exec Pool (UpdateHostHealthcheck h t) s = (Inr 0, s1)"
  shows "UpdateActorHost p h props s = (Some ErrActorHostNotFound, s1)"
  using assms by (simp add: UpdateActorHost_def updateHostsTable_zero_rows)

lemma UpdateActorHost_tx_zero_rows:
  assumes "db p = Some pool" "h \<noteq> []" "UAH_ActorTypes props \<noteq> None"
    "LastHealthCheck props = Some t" "db_begin s = (None, s0)"
    "db_exec Tx (UpdateHostHealthcheck h t) s0 = (Inr 0, s1)"
  shows "UpdateActorHost p h props s = (Some ErrActorHostNotFound, deferred_rollback s1)"
  using assms
  by (auto simp: UpdateActorHost_def executeInTransaction_def updateHostsTable_zero_rows)

lemma RemoveActorHost_zero_rows:
  "db p = Some pool \<Longrightarrow> h \<noteq> [] \<Longrightarrow> db_exec Pool (DeleteHost h) s = (Inr 0, s1) \<Longrightarrow>
     RemoveActorHost p h s = (Some ErrActorHostNotFound, s1)"
  by (simp add: RemoveActorHost_def)

lemma RemoveActor_zero_rows:
  "db p = Some pool \<Longrightarrow> AR_ActorType ref \<noteq> [] \<Longrightarrow> AR_ActorID ref \<noteq> [] \<Longrightarrow>
   db_exec Pool (DeleteActor (AR_ActorType ref) (AR_ActorID ref)) s = (Inr 0, s1) \<Longrightarrow>
     RemoveActor p ref s = (Some ErrActorNotFound, s1)"
  by (simp add: RemoveActor_def)

lemma db_exec_Pool_absent:
  "db_exec Pool st s = (Inr n, s1) \<Longrightarrow> rows_affected st (committed s) = 0 \<Longrightarrow> n = 0"
  using db_exec_Pool_Inr by fastforce

text \<open>
  C7. A delete or update that finds no row reports it. \<open>RemoveActorHost\<close> returns
  \<open>HostNotFound\<close> and \<open>RemoveActor\<close> returns \<open>ActorNotFound\<close> when their
  \<open>DELETE\<close> affects zero rows, which is what happens when the statement goes through
  and no row has the key; \<open>DeleteReminder\<close> returns \<open>ReminderNotFound\<close> for a
  reminder that does not exist; \<open>UpdateActorHost\<close> returns \<open>HostNotFound\<close> when its
  update of the host row affects zero rows, on the path without a transaction and,
  after the rollback, on the path with one.
\<close>

theorem NotFound_on_zero_rows:
  "(db p = Some pool \<and> h \<noteq> [] \<and> db_exec Pool (DeleteHost h) s = (Inr 0, s1) \<longrightarrow>
      RemoveActorHost p h s = (Some ErrActorHostNotFound, s1))
   \<and> (db p = Some pool \<and> h \<noteq> [] \<and> db_exec Pool (DeleteHost h) s = (Inr n, s1)
        \<and> filter (\<lambda>r. host_id r = h) (hosts (committed s)) = [] \<longrightarrow>
      RemoveActorHost p h s = (Some ErrActorHostNotFound, s1))
   \<and> (db p = Some pool \<and> AR_ActorType ref \<noteq> [] \<and> AR_ActorID ref \<noteq> []
        \<and> db_exec Pool (DeleteActor (AR_ActorType ref) (AR_ActorID ref)) s = (Inr 0, s1) \<longrightarrow>
      RemoveActor p ref s = (Some ErrActorNotFound, s1))
   \<and> (db p = Some pool \<and> AR_ActorType ref \<noteq> [] \<and> AR_ActorID ref \<noteq> []
        \<and> db_exec Pool (DeleteActor (AR_ActorType ref) (AR_ActorID ref)) s = (Inr n, s1)
        \<and> filter (\<lambda>r. a_actor_type r = AR_ActorType ref \<and> a_actor_id r = AR_ActorID ref)
             (actors (committed s)) = [] \<longrightarrow>
      RemoveActor p ref s = (Some ErrActorNotFound, s1))
   \<and> (filter (is_reminder rref) rs = [] \<longrightarrow>
      DeleteReminder rref rs = (Some ErrReminderNotFound, rs))
   \<and> (db p = Some pool \<and> h \<noteq> [] \<and> UAH_ActorTypes props = None
        \<and> LastHealthCheck props = Some t
        \<and> db_exec Pool (UpdateHostHealthcheck h t) s = (Inr 0, s1) \<longrightarrow>
      UpdateActorHost p h props s = (Some ErrActorHostNotFound, s1))
   \<and> (db p = Some pool \<and> h \<noteq> [] \<and> UAH_ActorTypes props \<noteq> None
        \<and> LastHealthCheck props = Some t \<and> db_begin s = (None, s0)
        \<and> db_exec Tx (UpdateHostHealthcheck h t) s0 = (Inr 0, s1) \<longrightarrow>
      UpdateActorHost p h props s = (Some ErrActorHostNotFound, deferred_rollback s1))"
proof -
  have a: "db p = Some pool \<and> h \<noteq> [] \<and> db_exec Pool (DeleteHost h) s = (Inr n, s1)
        \<and> filter (\<lambda>r. host_id r = h) (hosts (committed s)) = [] \<longrightarrow>
      RemoveActorHost p h s = (Some ErrActorHostNotFound, s1)"
    using db_exec_Pool_absent [of "DeleteHost h" s n s1] RemoveActorHost_zero_rows [of p pool h s s1]
    by auto
  have b: "db p = Some pool \<and> AR_ActorType ref \<noteq> [] \<and> AR_ActorID ref \<noteq> []
        \<and> db_exec Pool (DeleteActor (AR_ActorType ref) (AR_ActorID ref)) s = (Inr n, s1)
        \<and> filter (\<lambda>r. a_actor_type r = AR_ActorType ref \<and> a_actor_id r = AR_ActorID ref)
             (actors (committed s)) = [] \<longrightarrow>
      RemoveActor p ref s = (Some ErrActorNotFound, s1)"
    using db_exec_Pool_absent [of "DeleteActor (AR_ActorType ref) (AR_ActorID ref)" s n s1]
      RemoveActor_zero_rows [of p pool ref s s1]
    by auto
  have c: "filter (is_reminder rref) rs = [] \<longrightarrow>
      DeleteReminder rref rs = (Some ErrReminderNotFound, rs)"
    by (simp add: DeleteReminder_def)
  show ?thesis
    using a b c RemoveActorHost_zero_rows [of p pool h s s1]
      RemoveActor_zero_rows [of p pool ref s s1]
      UpdateActorHost_pool_zero_rows [of p pool h props t s s1]
      UpdateActorHost_tx_zero_rows [of p pool h props t s s0 s1]
    by blast
qed

text \<open>
  The theorem on the server that knows host \<open>h1\<close> only, asked about host \<open>h2\<close>,
  about an actor that was never placed and about a reminder that was never created.
\<close>

theorem NotFound_on_zero_rows_witness:
  "RemoveActorHost running_store ''h2'' world1
     = (Some ErrActorHostNotFound, world1\<lparr>calls := [Exec Pool (DeleteHost ''h2'')]\<rparr>)
   \<and> RemoveActor running_store \<lparr>AR_ActorType = ''cat'', AR_ActorID = ''id1''\<rparr> world1
     = (Some ErrActorNotFound,
        world1\<lparr>calls := [Exec Pool (DeleteActor ''cat'' ''id1'')]\<rparr>)
   \<and> DeleteReminder \<lparr>RR_ActorType = ''cat'', RR_ActorID = ''id1'', RR_Name = ''wake''\<rparr> []
     = (Some ErrReminderNotFound, [])
   \<and> UpdateActorHost running_store ''h2'' \<lparr>LastHealthCheck = Some 7, UAH_ActorTypes = None\<rparr>
       world1
     = (Some ErrActorHostNotFound,
        world1\<lparr>calls := [Exec Pool (UpdateHostHealthcheck ''h2'' 7)]\<rparr>)
   \<and> fst (UpdateActorHost running_store ''h2''
       \<lparr>LastHealthCheck = Some 7, UAH_ActorTypes = Some []\<rparr> world1)
     = Some ErrActorHostNotFound"
proof -
  let ?ref = "\<lparr>AR_ActorType = ''cat'', AR_ActorID = ''id1''\<rparr>"
  let ?rref = "\<lparr>RR_ActorType = ''cat'', RR_ActorID = ''id1'', RR_Name = ''wake''\<rparr>"
  let ?u1 = "\<lparr>LastHealthCheck = Some 7, UAH_ActorTypes = None\<rparr>"
  let ?u2 = "\<lparr>LastHealthCheck = Some 7, UAH_ActorTypes = Some []\<rparr>"
  have P: "db running_store = Some PgxPool"
    by (simp add: running_store_def)
  have e1: "db_exec Pool (DeleteHost ''h2'') world1
      = (Inr 0, world1\<lparr>calls := [Exec Pool (DeleteHost ''h2'')]\<rparr>)"
    by (simp add: db_exec_def request_def world1_def db1_def)
  have e2: "db_exec Pool (DeleteActor ''cat'' ''id1'') world1
      = (Inr 0, world1\<lparr>calls := [Exec Pool (DeleteActor ''cat'' ''id1'')]\<rparr>)"
    by (simp add: db_exec_def request_def world1_def db1_def)
  have e3: "db_exec Pool (UpdateHostHealthcheck ''h2'' 7) world1
      = (Inr 0, world1\<lparr>calls := [Exec Pool (UpdateHostHealthcheck ''h2'' 7)]\<rparr>)"
    by (simp add: db_exec_def request_def world1_def db1_def)
  obtain s0 where B: "db_begin world1 = (None, s0)"
    by (simp add: db_begin_def request_def world1_def)
  obtain s1 where e4: "db_exec Tx (UpdateHostHealthcheck ''h2'' 7) s0 = (Inr 0, s1)"
    using B by (auto simp: db_begin_def request_def world1_def db1_def db_exec_def tx_view_def)
  note T = NotFound_on_zero_rows [of running_store PgxPool "''h2''" world1
      _ 0 ?ref ?rref "[]" ?u1 7]
  have 1: "RemoveActorHost running_store ''h2'' world1
     = (Some ErrActorHostNotFound, world1\<lparr>calls := [Exec Pool (DeleteHost ''h2'')]\<rparr>)"
    using T [of "world1\<lparr>calls := [Exec Pool (DeleteHost ''h2'')]\<rparr>"] P e1 by simp
  have 2: "RemoveActor running_store ?ref world1
     = (Some ErrActorNotFound, world1\<lparr>calls := [Exec Pool (DeleteActor ''cat'' ''id1'')]\<rparr>)"
    using T [of "world1\<lparr>calls := [Exec Pool (DeleteActor ''cat'' ''id1'')]\<rparr>"] P e2 by simp
  have 3: "DeleteReminder ?rref [] = (Some ErrReminderNotFound, [])"
    using T by simp
  have 4: "UpdateActorHost running_store ''h2'' ?u1 world1
     = (Some ErrActorHostNotFound,
        world1\<lparr>calls := [Exec Pool (UpdateHostHealthcheck ''h2'' 7)]\<rparr>)"
    using T [of "world1\<lparr>calls := [Exec Pool (UpdateHostHealthcheck ''h2'' 7)]\<rparr>"] P e3
    by simp
  have 5: "fst (UpdateActorHost running_store ''h2'' ?u2 world1) = Some ErrActorHostNotFound"
    using NotFound_on_zero_rows [of running_store PgxPool "''h2''" world1 s1 0 ?ref ?rref "[]"
        ?u2 7 s0] P B e4
    by simp
  from 1 2 3 4 5 show ?thesis by simp
qed




text \<open>
  C1. The three steps of \<open>UpdateActorHost\<close> with actor types are not all inside the
  transaction: the delete of the old rows goes through the pool and is committed at
  once. Host \<open>h1\<close> has declared \<open>cat\<close> and is updated to declare \<open>dog\<close>; the server
  accepts \<open>Begin\<close> and the delete and fails the \<open>CopyFrom\<close>. The call returns the
  error and rolls back, and the committed table has lost \<open>cat\<close> without having \<open>dog\<close>.
\<close>

theorem UpdateActorHost_partial_write:
  "UpdateActorHost running_store ''h1''
      \<lparr>LastHealthCheck = None,
        UAH_ActorTypes = Some [\<lparr>ActorType = ''dog'', IdleTimeout = 60\<rparr>]\<rparr>
      (world1\<lparr>faults := [None, None, Some (OtherDbError ''connection lost'')]\<rparr>)
   = (Some (Wrap ''failed to insert supported actor types in hosts actor types table''
              (Db (OtherDbError ''connection lost''))),
      world1\<lparr>committed := db1\<lparr>hosts_actor_types := []\<rparr>,
             calls := [Begin, Exec Pool (DeleteHostActorTypes ''h1''),
                       Exec Tx (CopyFromHostActorTypes
                         [\<lparr>t_host_id = ''h1'', t_actor_type = ''dog'',
                           t_actor_idle_timeout = 60\<rparr>]),
                       Rollback]\<rparr>)"
  by (simp add: UpdateActorHost_def executeInTransaction_def updateHostsTable_def
        insertHostActorTypes_def elems_def db_begin_def db_exec_def tx_commit_def tx_view_def
        deferred_rollback_def tx_rollback_def
        request_def running_store_def world1_def db1_def)

text \<open>
  C3. When each of the three attempts of \<open>LookupActor\<close> fails with a unique violation
  and the context stays alive, the loop runs out and the call returns the zero response
  with a nil error.
\<close>

theorem LookupActor_swallows_third_violation:
  "LookupActor (\<lambda>t i d. None) running_store \<lparr>AR_ActorType = ''cat'', AR_ActorID = ''id1''\<rparr>
      (world1\<lparr>faults := [Some (PgError UniqueViolation), Some (PgError UniqueViolation),
                           Some (PgError UniqueViolation)]\<rparr>)
   = ((\<lparr>LAR_AppID = [], LAR_Address = [], LAR_IdleTimeout = 0\<rparr>, None),
      world1\<lparr>calls := [Lookup ''cat'' ''id1'', Wait (50 * Millisecond) None,
                        Lookup ''cat'' ''id1'', Wait (50 * Millisecond) None,
                        Lookup ''cat'' ''id1'', Wait (50 * Millisecond) None]\<rparr>)"
  by (simp add: LookupActor_def LookupActor_loop.simps pool_lookup_def backoff_def
        request_def running_store_def world1_def)

subsection \<open>Looking an actor up\<close>

lemma loop_row:
  "i < 3 \<Longrightarrow> pool_lookup q (AR_ActorType ref) (AR_ActorID ref) s = (Inr row, s1) \<Longrightarrow>
     LookupActor_loop q ref i res s = ((row, None), s1)"
  by (subst LookupActor_loop.simps) simp

lemma loop_no_rows:
  "i < 3 \<Longrightarrow> pool_lookup q (AR_ActorType ref) (AR_ActorID ref) s = (Inl ErrNoRows, s1) \<Longrightarrow>
     LookupActor_loop q ref i res s = ((res, Some ErrNoActorHost), s1)"
  by (subst LookupActor_loop.simps) simp

lemma loop_other:
  "i < 3 \<Longrightarrow> pool_lookup q (AR_ActorType ref) (AR_ActorID ref) s = (Inl e, s1) \<Longrightarrow>
     e \<noteq> ErrNoRows \<Longrightarrow> \<not> isUniqueViolationError (Some e) \<Longrightarrow>
     LookupActor_loop q ref i res s = ((res, Some (Wrap ''database error'' (Db e))), s1)"
  by (subst LookupActor_loop.simps) simp

lemma unique_not_no_rows: "isUniqueViolationError (Some e) \<Longrightarrow> e \<noteq> ErrNoRows"
  by (cases e) auto

lemma loop_cancelled:
  "i < 3 \<Longrightarrow> pool_lookup q (AR_ActorType ref) (AR_ActorID ref) s = (Inl e, s1) \<Longrightarrow>
     isUniqueViolationError (Some e) \<Longrightarrow> backoff s1 = (Some c, s2) \<Longrightarrow>
     LookupActor_loop q ref i res s = ((res, Some (Ctx c)), s2)"
  by (subst LookupActor_loop.simps) (simp add: unique_not_no_rows)

lemma loop_retry:
  "i < 3 \<Longrightarrow> pool_lookup q (AR_ActorType ref) (AR_ActorID ref) s = (Inl e, s1) \<Longrightarrow>
     isUniqueViolationError (Some e) \<Longrightarrow> backoff s1 = (None, s2) \<Longrightarrow>
     LookupActor_loop q ref i res s = LookupActor_loop q ref (Suc i) res s2"
  by (subst LookupActor_loop.simps) (simp add: unique_not_no_rows)

lemma loop_done: "\<not> i < 3 \<Longrightarrow> LookupActor_loop q ref i res s = ((res, None), s)"
  by (subst LookupActor_loop.simps) simp

lemma loop_trace:
  "\<exists>new. calls (snd (LookupActor_loop q ref i res s)) = calls s @ new
      \<and> spaced new \<and> length (filter is_lookup new) \<le> 3 - i"
proof (induction q ref i res s rule: LookupActor_loop.induct)
  case (1 q ref i res s)
  show ?case
  proof (cases "i < 3")
    case False
    then show ?thesis by (simp add: loop_done)
  next
    case True
    obtain r s1 where L: "pool_lookup q (AR_ActorType ref) (AR_ActorID ref) s = (r, s1)"
      by (cases "pool_lookup q (AR_ActorType ref) (AR_ActorID ref) s")
    note CL = pool_lookup_calls [OF L]
    show ?thesis
    proof (cases r)
      case (Inr row)
      with True L CL show ?thesis by (simp add: loop_row)
    next
      case (Inl e)
      show ?thesis
      proof (cases "e = ErrNoRows")
        case True
        with \<open>i < 3\<close> L Inl CL show ?thesis by (simp add: loop_no_rows)
      next
        case ne: False
        show ?thesis
        proof (cases "isUniqueViolationError (Some e)")
          case False
          with \<open>i < 3\<close> L Inl CL ne show ?thesis by (simp add: loop_other)
        next
          case uv: True
          obtain c s2 where B: "backoff s1 = (c, s2)"
            by (cases "backoff s1")
          note CB = backoff_calls [OF B]
          show ?thesis
          proof (cases c)
            case (Some ce)
            with \<open>i < 3\<close> L Inl uv B CL CB show ?thesis by (simp add: loop_cancelled)
          next
            case None
            let ?more = "\<lambda>new. Lookup (AR_ActorType ref) (AR_ActorID ref)
                # Wait (50 * Millisecond) None # new"
            from "1.IH" [OF True L [symmetric] Inl ne uv B [symmetric] None]
            obtain new where N:
              "calls (snd (LookupActor_loop q ref (i + 1) res s2)) = calls s2 @ new"
              "spaced new" "length (filter is_lookup new) \<le> 3 - (i + 1)"
              by auto
            have E: "LookupActor_loop q ref i res s = LookupActor_loop q ref (Suc i) res s2"
              using \<open>i < 3\<close> L Inl uv B None by (simp add: loop_retry)
            have "calls (snd (LookupActor_loop q ref i res s)) = calls s @ ?more new"
              using E N CL CB None by simp
            moreover have "spaced (?more new)"
              using N by simp
            moreover have "length (filter is_lookup (?more new)) \<le> 3 - i"
              using N \<open>i < 3\<close> by simp
            ultimately show ?thesis by blast
          qed
        qed
      qed
    qed
  qed
qed

lemma LookupActor_valid:
  "AR_ActorType ref \<noteq> [] \<Longrightarrow> AR_ActorID ref \<noteq> [] \<Longrightarrow> db p = Some pool \<Longrightarrow>
    LookupActor q p ref s
      = LookupActor_loop q ref 0 \<lparr>LAR_AppID = [], LAR_Address = [], LAR_IdleTimeout = 0\<rparr> s"
  by (simp add: LookupActor_def)

lemma LookupActor_trace:
  assumes "AR_ActorType ref \<noteq> []" "AR_ActorID ref \<noteq> []" "db p = Some pool"
  shows "\<exists>new. calls (snd (LookupActor q p ref s)) = calls s @ new
      \<and> spaced new \<and> length (filter is_lookup new) \<le> 3"
  using loop_trace [of q ref 0 "\<lparr>LAR_AppID = [], LAR_Address = [], LAR_IdleTimeout = 0\<rparr>" s]
    LookupActor_valid [OF assms, of q s]
  by simp

text \<open>
  The classifier accepts one error only: a \<open>PgError\<close> whose code is 23505.
\<close>

lemma isUniqueViolationError_iff:
  "isUniqueViolationError x \<longleftrightarrow> x = Some (PgError ''23505'')"
proof (cases x)
  case None
  then show ?thesis by simp
next
  case (Some e)
  then show ?thesis by (cases e) (auto simp: UniqueViolation_def)
qed

lemma loop_stops:
  assumes "i < 3" and L: "pool_lookup q (AR_ActorType ref) (AR_ActorID ref) s = (r, sa)"
    and "r \<noteq> Inl (PgError ''23505'')"
  shows "snd (LookupActor_loop q ref i res s) = sa"
proof (cases r)
  case (Inr row)
  with assms show ?thesis by (simp add: loop_row)
next
  case (Inl e)
  with assms have ne: "\<not> isUniqueViolationError (Some e)"
    by (simp add: isUniqueViolationError_iff)
  show ?thesis
  proof (cases "e = ErrNoRows")
    case True
    with assms Inl show ?thesis by (simp add: loop_no_rows)
  next
    case False
    with assms Inl ne show ?thesis by (simp add: loop_other)
  qed
qed

lemma pool_lookup_first_answer:
  assumes "pool_lookup q t i s = (r, sa)"
    and "take 1 (faults s) \<noteq> [Some (PgError ''23505'')]"
  shows "r \<noteq> Inl (PgError ''23505'')"
  using assms
  by (auto simp: pool_lookup_def request_def split: list.splits option.splits)

lemma LookupActor_single_attempt:
  assumes "AR_ActorType ref \<noteq> []" "AR_ActorID ref \<noteq> []" "db p = Some pool"
    and "take 1 (faults s) \<noteq> [Some (PgError ''23505'')]"
  shows "calls (snd (LookupActor q p ref s))
    = calls s @ [Lookup (AR_ActorType ref) (AR_ActorID ref)]"
proof -
  obtain r sa where L: "pool_lookup q (AR_ActorType ref) (AR_ActorID ref) s = (r, sa)"
    by (cases "pool_lookup q (AR_ActorType ref) (AR_ActorID ref) s")
  have "r \<noteq> Inl (PgError ''23505'')"
    using pool_lookup_first_answer [OF L assms(4)] .
  then have "snd (LookupActor_loop q ref 0
      \<lparr>LAR_AppID = [], LAR_Address = [], LAR_IdleTimeout = 0\<rparr> s) = sa"
    using loop_stops [of 0 q ref s r sa] L by simp
  with LookupActor_valid [OF assms(1-3), of q s] pool_lookup_calls [OF L]
  show ?thesis by simp
qed

text \<open>
  C2. \<open>LookupActor\<close> on a valid reference runs the loop from attempt 0. The calls
  it makes hold at most three queries, any two in a row separated by one wait of 50
  milliseconds that the timer ended, and nothing follows a wait that the context cut
  short. A retry needs a unique violation, which is the server error with SQLSTATE
  23505 and nothing else: when the first answer of the server is not that error the
  call makes exactly one query, and at every attempt whose query does not fail with
  that error the loop makes no further call. For every attempt: a row is returned with
  a nil error; no row is \<open>NoActorHost\<close>; an error that is neither no rows nor 23505
  is returned wrapped; after a 23505 the backoff either ends with the context's
  error, which is returned with no further call, or with the timer, and then the loop
  goes on with the next attempt.
\<close>

theorem LookupActor_retry:
  "(isUniqueViolationError x \<longleftrightarrow> x = Some (PgError ''23505''))
   \<and> (AR_ActorType ref \<noteq> [] \<and> AR_ActorID ref \<noteq> [] \<and> db p = Some pool \<longrightarrow>
      LookupActor q p ref s
        = LookupActor_loop q ref 0 \<lparr>LAR_AppID = [], LAR_Address = [], LAR_IdleTimeout = 0\<rparr> s
      \<and> (\<exists>new. calls (snd (LookupActor q p ref s)) = calls s @ new
            \<and> spaced new \<and> length (filter is_lookup new) \<le> 3))
   \<and> (AR_ActorType ref \<noteq> [] \<and> AR_ActorID ref \<noteq> [] \<and> db p = Some pool
        \<and> take 1 (faults s) \<noteq> [Some (PgError ''23505'')] \<longrightarrow>
      calls (snd (LookupActor q p ref s))
        = calls s @ [Lookup (AR_ActorType ref) (AR_ActorID ref)])
   \<and> (i < 3 \<and> pool_lookup q (AR_ActorType ref) (AR_ActorID ref) s = (r, sa)
        \<and> r \<noteq> Inl (PgError ''23505'') \<longrightarrow>
        snd (LookupActor_loop q ref i res s) = sa)
   \<and> (i < 3 \<and> pool_lookup q (AR_ActorType ref) (AR_ActorID ref) s = (Inr row, sa) \<longrightarrow>
        LookupActor_loop q ref i res s = ((row, None), sa))
   \<and> (i < 3 \<and> pool_lookup q (AR_ActorType ref) (AR_ActorID ref) s = (Inl ErrNoRows, sa) \<longrightarrow>
        LookupActor_loop q ref i res s = ((res, Some ErrNoActorHost), sa))
   \<and> (i < 3 \<and> pool_lookup q (AR_ActorType ref) (AR_ActorID ref) s = (Inl e, sa)
        \<and> e \<noteq> ErrNoRows \<and> e \<noteq> PgError ''23505'' \<longrightarrow>
        LookupActor_loop q ref i res s
          = ((res, Some (Wrap ''database error'' (Db e))), sa))
   \<and> (i < 3
        \<and> pool_lookup q (AR_ActorType ref) (AR_ActorID ref) s = (Inl (PgError ''23505''), sa)
        \<and> backoff sa = (Some c, sb) \<longrightarrow>
        LookupActor_loop q ref i res s = ((res, Some (Ctx c)), sb))
   \<and> (i < 3
        \<and> pool_lookup q (AR_ActorType ref) (AR_ActorID ref) s = (Inl (PgError ''23505''), sa)
        \<and> backoff sa = (None, sb) \<longrightarrow>
        LookupActor_loop q ref i res s = LookupActor_loop q ref (Suc i) res sb)"
proof -
  have u: "isUniqueViolationError (Some (PgError ''23505''))"
    by (simp add: isUniqueViolationError_iff)
  have o: "e \<noteq> PgError ''23505'' \<Longrightarrow> \<not> isUniqueViolationError (Some e)"
    by (simp add: isUniqueViolationError_iff)
  have c1: "isUniqueViolationError x \<longleftrightarrow> x = Some (PgError ''23505'')"
    by (rule isUniqueViolationError_iff)
  have c2: "AR_ActorType ref \<noteq> [] \<and> AR_ActorID ref \<noteq> [] \<and> db p = Some pool \<longrightarrow>
      LookupActor q p ref s
        = LookupActor_loop q ref 0 \<lparr>LAR_AppID = [], LAR_Address = [], LAR_IdleTimeout = 0\<rparr> s
      \<and> (\<exists>new. calls (snd (LookupActor q p ref s)) = calls s @ new
            \<and> spaced new \<and> length (filter is_lookup new) \<le> 3)"
    using LookupActor_valid [of ref p pool q s] LookupActor_trace [of ref p pool q s]
    by blast
  have c3: "AR_ActorType ref \<noteq> [] \<and> AR_ActorID ref \<noteq> [] \<and> db p = Some pool
        \<and> take 1 (faults s) \<noteq> [Some (PgError ''23505'')] \<longrightarrow>
      calls (snd (LookupActor q p ref s))
        = calls s @ [Lookup (AR_ActorType ref) (AR_ActorID ref)]"
    using LookupActor_single_attempt [of ref p pool s q] by blast
  have c4: "i < 3 \<and> pool_lookup q (AR_ActorType ref) (AR_ActorID ref) s = (r, sa)
        \<and> r \<noteq> Inl (PgError ''23505'') \<longrightarrow>
        snd (LookupActor_loop q ref i res s) = sa"
    using loop_stops [of i q ref s r sa res] by blast
  have c5: "i < 3 \<and> pool_lookup q (AR_ActorType ref) (AR_ActorID ref) s = (Inr row, sa) \<longrightarrow>
        LookupActor_loop q ref i res s = ((row, None), sa)"
    using loop_row [of i q ref s row sa res] by blast
  have c6: "i < 3 \<and> pool_lookup q (AR_ActorType ref) (AR_ActorID ref) s = (Inl ErrNoRows, sa) \<longrightarrow>
        LookupActor_loop q ref i res s = ((res, Some ErrNoActorHost), sa)"
    using loop_no_rows [of i q ref s sa res] by blast
  have c7: "i < 3 \<and> pool_lookup q (AR_ActorType ref) (AR_ActorID ref) s = (Inl e, sa)
        \<and> e \<noteq> ErrNoRows \<and> e \<noteq> PgError ''23505'' \<longrightarrow>
        LookupActor_loop q ref i res s
          = ((res, Some (Wrap ''database error'' (Db e))), sa)"
    using loop_other [of i q ref s e sa res] o by blast
  have c8: "i < 3
        \<and> pool_lookup q (AR_ActorType ref) (AR_ActorID ref) s = (Inl (PgError ''23505''), sa)
        \<and> backoff sa = (Some c, sb) \<longrightarrow>
        LookupActor_loop q ref i res s = ((res, Some (Ctx c)), sb)"
    using loop_cancelled [of i q ref s "PgError ''23505''" sa c sb res] u by blast
  have c9: "i < 3
        \<and> pool_lookup q (AR_ActorType ref) (AR_ActorID ref) s = (Inl (PgError ''23505''), sa)
        \<and> backoff sa = (None, sb) \<longrightarrow>
        LookupActor_loop q ref i res s = LookupActor_loop q ref (Suc i) res sb"
    using loop_retry [of i q ref s "PgError ''23505''" sa sb res] u by blast
  show ?thesis
    by (intro conjI c1 c2 c3 c4 c5 c6 c7 c8 c9)
qed

text \<open>
  The theorem on the server where host \<open>h1\<close> has declared \<open>cat\<close>: a lookup whose
  first attempt meets a unique violation and whose second returns the host; a lookup of
  a type no host has declared; a lookup that meets an error of the driver; a lookup
  that meets a server error with another code (23503), which is returned although the
  server would have answered a retry; and a lookup whose context is cancelled during
  the backoff.
\<close>

theorem LookupActor_retry_witness:
  "fst (LookupActor example_query running_store \<lparr>AR_ActorType = ''cat'', AR_ActorID = ''id1''\<rparr>
          (world1\<lparr>faults := [Some (PgError ''23505'')]\<rparr>))
     = (\<lparr>LAR_AppID = ''a1'', LAR_Address = ''addr1'', LAR_IdleTimeout = 30\<rparr>, None)
   \<and> calls (snd (LookupActor example_query running_store
          \<lparr>AR_ActorType = ''cat'', AR_ActorID = ''id1''\<rparr>
          (world1\<lparr>faults := [Some (PgError ''23505'')]\<rparr>)))
     = [Lookup ''cat'' ''id1'', Wait (50 * Millisecond) None, Lookup ''cat'' ''id1'']
   \<and> fst (LookupActor example_query running_store
          \<lparr>AR_ActorType = ''dog'', AR_ActorID = ''id1''\<rparr> world1)
     = (\<lparr>LAR_AppID = [], LAR_Address = [], LAR_IdleTimeout = 0\<rparr>, Some ErrNoActorHost)
   \<and> calls (snd (LookupActor example_query running_store
          \<lparr>AR_ActorType = ''dog'', AR_ActorID = ''id1''\<rparr> world1))
     = [Lookup ''dog'' ''id1'']
   \<and> LookupActor example_query running_store \<lparr>AR_ActorType = ''cat'', AR_ActorID = ''id1''\<rparr>
          (world1\<lparr>faults := [Some (OtherDbError ''connection lost'')]\<rparr>)
     = ((\<lparr>LAR_AppID = [], LAR_Address = [], LAR_IdleTimeout = 0\<rparr>,
         Some (Wrap ''database error'' (Db (OtherDbError ''connection lost'')))),
        world1\<lparr>calls := [Lookup ''cat'' ''id1'']\<rparr>)
   \<and> LookupActor example_query running_store \<lparr>AR_ActorType = ''cat'', AR_ActorID = ''id1''\<rparr>
          (world1\<lparr>faults := [Some (PgError ''23503''), Some (PgError ''23505'')]\<rparr>)
     = ((\<lparr>LAR_AppID = [], LAR_Address = [], LAR_IdleTimeout = 0\<rparr>,
         Some (Wrap ''database error'' (Db (PgError ''23503'')))),
        world1\<lparr>faults := [Some (PgError ''23505'')], calls := [Lookup ''cat'' ''id1'']\<rparr>)
   \<and> LookupActor example_query running_store \<lparr>AR_ActorType = ''cat'', AR_ActorID = ''id1''\<rparr>
          (world1\<lparr>faults := [Some (PgError ''23505'')], cancels := [Some Canceled]\<rparr>)
     = ((\<lparr>LAR_AppID = [], LAR_Address = [], LAR_IdleTimeout = 0\<rparr>, Some (Ctx Canceled)),
        world1\<lparr>calls := [Lookup ''cat'' ''id1'', Wait (50 * Millisecond) (Some Canceled)]\<rparr>)
   \<and> isUniqueViolationError (Some (PgError ''23505''))
   \<and> \<not> isUniqueViolationError (Some (PgError ''23503''))"
proof -
  let ?cat = "\<lparr>AR_ActorType = ''cat'', AR_ActorID = ''id1''\<rparr>"
  let ?dog = "\<lparr>AR_ActorType = ''dog'', AR_ActorID = ''id1''\<rparr>"
  let ?zero = "\<lparr>LAR_AppID = [], LAR_Address = [], LAR_IdleTimeout = 0\<rparr>"
  let ?row = "\<lparr>LAR_AppID = ''a1'', LAR_Address = ''addr1'', LAR_IdleTimeout = 30\<rparr>"
  let ?uv = "PgError ''23505''"
  let ?fk = "PgError ''23503''"
  let ?wa = "world1\<lparr>faults := [Some ?uv]\<rparr>"
  let ?wc = "world1\<lparr>faults := [Some (OtherDbError ''connection lost'')]\<rparr>"
  let ?wd = "world1\<lparr>faults := [Some ?uv], cancels := [Some Canceled]\<rparr>"
  let ?we = "world1\<lparr>faults := [Some ?fk, Some ?uv]\<rparr>"
  have P: "db running_store = Some PgxPool"
    by (simp add: running_store_def)
  \<comment> \<open>a unique violation, the backoff, then a row\<close>
  have a1: "pool_lookup example_query ''cat'' ''id1'' ?wa
      = (Inl ?uv, world1\<lparr>calls := [Lookup ''cat'' ''id1'']\<rparr>)"
    by (simp add: pool_lookup_def request_def world1_def)
  have a2: "backoff (world1\<lparr>calls := [Lookup ''cat'' ''id1'']\<rparr>)
      = (None, world1\<lparr>calls := [Lookup ''cat'' ''id1'', Wait (50 * Millisecond) None]\<rparr>)"
    by (simp add: backoff_def world1_def)
  obtain s3 where a3: "pool_lookup example_query ''cat'' ''id1''
        (world1\<lparr>calls := [Lookup ''cat'' ''id1'', Wait (50 * Millisecond) None]\<rparr>)
      = (Inr ?row, s3)"
    and c3: "calls s3
      = [Lookup ''cat'' ''id1'', Wait (50 * Millisecond) None, Lookup ''cat'' ''id1'']"
    by (simp add: pool_lookup_def request_def world1_def db1_def example_query_def)
  have A0: "LookupActor example_query running_store ?cat ?wa
      = LookupActor_loop example_query ?cat 0 ?zero ?wa"
    using LookupActor_retry [where ref = ?cat and p = running_store and pool = PgxPool
        and q = example_query and s = ?wa] P
    by simp
  have A1: "LookupActor_loop example_query ?cat 0 ?zero ?wa
      = LookupActor_loop example_query ?cat (Suc 0) ?zero
          (world1\<lparr>calls := [Lookup ''cat'' ''id1'', Wait (50 * Millisecond) None]\<rparr>)"
    using LookupActor_retry [where ref = ?cat and q = example_query and s = ?wa and i = 0
        and sa = "world1\<lparr>calls := [Lookup ''cat'' ''id1'']\<rparr>"
        and sb = "world1\<lparr>calls := [Lookup ''cat'' ''id1'', Wait (50 * Millisecond) None]\<rparr>"
        and res = ?zero] a1 a2
    by simp
  have A2: "LookupActor_loop example_query ?cat (Suc 0) ?zero
          (world1\<lparr>calls := [Lookup ''cat'' ''id1'', Wait (50 * Millisecond) None]\<rparr>)
      = ((?row, None), s3)"
    using LookupActor_retry [where ref = ?cat and q = example_query and i = "Suc 0"
        and s = "world1\<lparr>calls := [Lookup ''cat'' ''id1'', Wait (50 * Millisecond) None]\<rparr>"
        and row = ?row and sa = s3 and res = ?zero] a3
    by simp
  have A: "LookupActor example_query running_store ?cat ?wa = ((?row, None), s3)"
    using A0 A1 A2 by simp
  \<comment> \<open>no host has declared the type: one query, no retry\<close>
  obtain sn where b1: "pool_lookup example_query ''dog'' ''id1'' world1 = (Inl ErrNoRows, sn)"
    by (simp add: pool_lookup_def request_def world1_def db1_def example_query_def)
  have B: "fst (LookupActor example_query running_store ?dog world1)
      = (?zero, Some ErrNoActorHost)"
    using LookupActor_retry [where ref = ?dog and p = running_store and pool = PgxPool
        and q = example_query and s = world1 and i = 0 and sa = sn and res = ?zero] P b1
    by simp
  have B': "calls (snd (LookupActor example_query running_store ?dog world1))
      = [Lookup ''dog'' ''id1'']"
  proof -
    have f: "take 1 (faults world1) \<noteq> [Some (PgError ''23505'')]"
      by (simp add: world1_def)
    have k: "calls world1 = []"
      by (simp add: world1_def)
    have v: "AR_ActorType ?dog \<noteq> [] \<and> AR_ActorID ?dog \<noteq> []"
      by simp
    from LookupActor_retry [where ref = ?dog and p = running_store and pool = PgxPool
        and q = example_query and s = world1] P f v
    have "calls (snd (LookupActor example_query running_store ?dog world1))
        = calls world1 @ [Lookup (AR_ActorType ?dog) (AR_ActorID ?dog)]"
      by blast
    with k show ?thesis by simp
  qed
  \<comment> \<open>an error of the driver\<close>
  have c1: "pool_lookup example_query ''cat'' ''id1'' ?wc
      = (Inl (OtherDbError ''connection lost''), world1\<lparr>calls := [Lookup ''cat'' ''id1'']\<rparr>)"
    by (simp add: pool_lookup_def request_def world1_def)
  have C: "LookupActor example_query running_store ?cat ?wc
      = ((?zero, Some (Wrap ''database error'' (Db (OtherDbError ''connection lost'')))),
         world1\<lparr>calls := [Lookup ''cat'' ''id1'']\<rparr>)"
    using LookupActor_retry [where ref = ?cat and p = running_store and pool = PgxPool
        and q = example_query and s = ?wc and i = 0
        and e = "OtherDbError ''connection lost''"
        and sa = "world1\<lparr>calls := [Lookup ''cat'' ''id1'']\<rparr>" and res = ?zero] P c1
    by simp
  \<comment> \<open>an error of the server with another code: no retry, the next answer is not taken\<close>
  have e1: "pool_lookup example_query ''cat'' ''id1'' ?we
      = (Inl ?fk, world1\<lparr>faults := [Some ?uv], calls := [Lookup ''cat'' ''id1'']\<rparr>)"
    by (simp add: pool_lookup_def request_def world1_def)
  have E: "LookupActor example_query running_store ?cat ?we
      = ((?zero, Some (Wrap ''database error'' (Db ?fk))),
         world1\<lparr>faults := [Some ?uv], calls := [Lookup ''cat'' ''id1'']\<rparr>)"
    using LookupActor_retry [where ref = ?cat and p = running_store and pool = PgxPool
        and q = example_query and s = ?we and i = 0 and e = ?fk
        and sa = "world1\<lparr>faults := [Some ?uv], calls := [Lookup ''cat'' ''id1'']\<rparr>"
        and res = ?zero] P e1
    by simp
  \<comment> \<open>the context is cancelled during the backoff\<close>
  have d1: "pool_lookup example_query ''cat'' ''id1'' ?wd
      = (Inl ?uv, world1\<lparr>cancels := [Some Canceled], calls := [Lookup ''cat'' ''id1'']\<rparr>)"
    by (simp add: pool_lookup_def request_def world1_def)
  have d2: "backoff (world1\<lparr>cancels := [Some Canceled], calls := [Lookup ''cat'' ''id1'']\<rparr>)
      = (Some Canceled,
         world1\<lparr>calls := [Lookup ''cat'' ''id1'', Wait (50 * Millisecond) (Some Canceled)]\<rparr>)"
    by (simp add: backoff_def world1_def)
  have D: "LookupActor example_query running_store ?cat ?wd
      = ((?zero, Some (Ctx Canceled)),
         world1\<lparr>calls := [Lookup ''cat'' ''id1'', Wait (50 * Millisecond) (Some Canceled)]\<rparr>)"
    using LookupActor_retry [where ref = ?cat and p = running_store and pool = PgxPool
        and q = example_query and s = ?wd and i = 0 and c = Canceled
        and sa = "world1\<lparr>cancels := [Some Canceled], calls := [Lookup ''cat'' ''id1'']\<rparr>"
        and sb = "world1\<lparr>calls := [Lookup ''cat'' ''id1'',
                     Wait (50 * Millisecond) (Some Canceled)]\<rparr>"
        and res = ?zero] P d1 d2
    by simp
  have U1: "isUniqueViolationError (Some ?uv)"
    using LookupActor_retry [where x = "Some ?uv"] by simp
  have U2: "\<not> isUniqueViolationError (Some ?fk)"
    using LookupActor_retry [where x = "Some ?fk"] by simp
  from A c3 B B' C E D U1 U2 show ?thesis by simp
qed

end
